theory Spec2Isabelle
  imports Main
begin

section \<open>Errors\<close>

text \<open>
  Every exception the modelled code can raise is a value.  \<open>HTTPException\<close> carries the
  status code the source passes as \<open>status_code\<close>.  \<open>ValidationError\<close> is the
  rejection of a value by a field constraint of its schema (for a request body the
  application answers it with status 400).  \<open>MultipleResultsFound\<close> is raised by
  \<open>scalar_one_or_none\<close>,
  \<open>ValueError\<close> by the whitelist on an unknown entity kind, \<open>AttributeError\<close> by a call
  of a method an object does not have, and \<open>StoreError\<close> stands for the exception of a
  commit the relational store refuses (an integrity or data error of the database client).
\<close>

datatype error =
    HTTPException nat
  | ValidationError
  | MultipleResultsFound
  | ValueError
  | AttributeError
  | StoreError

abbreviation HTTP_400_BAD_REQUEST :: nat where "HTTP_400_BAD_REQUEST \<equiv> 400"
abbreviation HTTP_401_UNAUTHORIZED :: nat where "HTTP_401_UNAUTHORIZED \<equiv> 401"
abbreviation HTTP_403_FORBIDDEN :: nat where "HTTP_403_FORBIDDEN \<equiv> 403"
abbreviation HTTP_404_NOT_FOUND :: nat where "HTTP_404_NOT_FOUND \<equiv> 404"
abbreviation HTTP_409_CONFLICT :: nat where "HTTP_409_CONFLICT \<equiv> 409"

text \<open>\<open>Result.scalar_one_or_none\<close> of the database client.\<close>

fun scalar_one_or_none :: "'a list \<Rightarrow> error + 'a option" where
  "scalar_one_or_none [] = Inr None"
| "scalar_one_or_none [x] = Inr (Some x)"
| "scalar_one_or_none (x # y # zs) = Inl MultipleResultsFound"

section \<open>Session whitelist (utils/whitelist.py)\<close>

text \<open>
  The key-value store holds one set of token identifiers per key.  \<open>sadd\<close>, \<open>sismember\<close>,
  \<open>srem\<close> and \<open>unlink\<close> are the four commands the source sends.
\<close>

type_synonym redis = "string \<Rightarrow> string set"

definition sadd :: "redis \<Rightarrow> string \<Rightarrow> string \<Rightarrow> redis" where
  "sadd r key member = r(key := insert member (r key))"

definition sismember :: "redis \<Rightarrow> string \<Rightarrow> string \<Rightarrow> bool" where
  "sismember r key member = (member \<in> r key)"

definition srem :: "redis \<Rightarrow> string \<Rightarrow> string \<Rightarrow> redis" where
  "srem r key member = r(key := r key - {member})"

definition unlink :: "redis \<Rightarrow> string \<Rightarrow> redis" where
  "unlink r key = r(key := {})"

text \<open>The \<open>if entity == "user" ... elif entity == "company" ... else raise\<close> prologue
  shared by the four methods of \<open>TokenWhiteList\<close>.\<close>

definition whitelist_key :: "string \<Rightarrow> string \<Rightarrow> error + string" where
  "whitelist_key ident entity =
     (if entity = ''user'' then Inr (''whitelist:users:'' @ ident)
      else if entity = ''company'' then Inr (''whitelist:companies:'' @ ident)
      else Inl ValueError)"

definition add_jti_to_whitelist :: "redis \<Rightarrow> string \<Rightarrow> string \<Rightarrow> string \<Rightarrow> error + redis" where
  "add_jti_to_whitelist r ident jti entity =
     (case whitelist_key ident entity of
        Inl e \<Rightarrow> Inl e
      | Inr key \<Rightarrow> Inr (sadd r key jti))"

definition check_jti_in_whitelist :: "redis \<Rightarrow> string \<Rightarrow> string \<Rightarrow> string \<Rightarrow> error + bool" where
  "check_jti_in_whitelist r ident jti entity =
     (case whitelist_key ident entity of
        Inl e \<Rightarrow> Inl e
      | Inr key \<Rightarrow> Inr (sismember r key jti))"

definition delete_one_jti_from_whitelist :: "redis \<Rightarrow> string \<Rightarrow> string \<Rightarrow> string \<Rightarrow> error + redis" where
  "delete_one_jti_from_whitelist r ident jti entity =
     (case whitelist_key ident entity of
        Inl e \<Rightarrow> Inl e
      | Inr key \<Rightarrow> Inr (srem r key jti))"

definition flush_all_jti_from_whitelist :: "redis \<Rightarrow> string \<Rightarrow> string \<Rightarrow> error + redis" where
  "flush_all_jti_from_whitelist r ident entity =
     (case whitelist_key ident entity of
        Inl e \<Rightarrow> Inl e
      | Inr key \<Rightarrow> Inr (unlink r key))"

section \<open>Tokens (utils/auth.py, create_access_token)\<close>

text \<open>
  The payload \<open>create_access_token\<close> builds: \<open>id\<close>, \<open>jti\<close>, \<open>exp\<close> and \<open>refresh\<close>.
  Signing, signature verification, the expiry check, password hashing and the e-mail
  validator belong to libraries; they are parameters.  \<open>jwt_encode\<close> yields \<open>None\<close>
  when the library raises the error the source catches, \<open>jwt_decode\<close> yields \<open>None\<close>
  on every \<open>PyJWTError\<close> (bad signature, expired, malformed), \<open>validate_email\<close>
  yields the normalised address or \<open>None\<close> for \<open>EmailNotValidError\<close>.
  The two compiled patterns, the table of two-letter country codes and \<open>str.upper\<close>
  are parameters as well.
\<close>

record token_data =
  td_id :: string
  td_jti :: string
  td_exp :: int
  td_refresh :: bool

record libs =
  jwt_encode :: "token_data \<Rightarrow> string option"
  jwt_decode :: "string \<Rightarrow> token_data option"
  verify_password :: "string \<Rightarrow> string \<Rightarrow> bool"
  hash_password :: "string \<Rightarrow> string"
  validate_email :: "string \<Rightarrow> string option"
  password_pattern_match :: "string \<Rightarrow> bool"
  httpurl_pattern_match :: "string \<Rightarrow> bool"
  country_alpha2 :: "string \<Rightarrow> bool"
  str_upper :: "string \<Rightarrow> string"

text \<open>\<open>token_uuid\<close> is the value of \<open>str(uuid4())\<close>, \<open>now\<close> the clock in seconds.\<close>

definition create_access_token ::
  "libs \<Rightarrow> string \<Rightarrow> int \<Rightarrow> string \<Rightarrow> bool \<Rightarrow> error + (string \<times> string)" where
  "create_access_token L token_uuid now ident is_refresh =
     (let payload = \<lparr>td_id = ident, td_jti = token_uuid,
                      td_exp = now + 24 * 3600, td_refresh = is_refresh\<rparr>
      in case jwt_encode L payload of
           Some token \<Rightarrow> Inr (token_uuid, token)
         | None \<Rightarrow> Inl (HTTPException HTTP_400_BAD_REQUEST))"

text \<open>\<open>TokenBearer.__call__\<close>, with the subclass's \<open>verify_token_data\<close> as an argument.
  \<open>auth_data\<close> is the bearer string of the request, \<open>None\<close> when there is none (the
  routes build their bearers with \<open>auto_error=True\<close>, so the framework refuses such
  a request before this code; the model keeps the source's own test).\<close>

definition TokenBearer_call ::
  "libs \<Rightarrow> (token_data \<Rightarrow> error + unit) \<Rightarrow> string option \<Rightarrow> error + string" where
  "TokenBearer_call L verify_token_data auth_data =
     (case auth_data of
        None \<Rightarrow> Inl (HTTPException HTTP_403_FORBIDDEN)
      | Some credentials \<Rightarrow>
          if credentials = [] then Inl (HTTPException HTTP_403_FORBIDDEN)
          else (case jwt_decode L credentials of
                  None \<Rightarrow> Inl (HTTPException HTTP_403_FORBIDDEN)
                | Some token_data \<Rightarrow>
                    (case verify_token_data token_data of
                       Inl e \<Rightarrow> Inl e
                     | Inr u \<Rightarrow> Inr credentials)))"

definition AccessTokenBearer_verify_token_data :: "token_data \<Rightarrow> error + unit" where
  "AccessTokenBearer_verify_token_data token_data =
     (if td_refresh token_data then Inl (HTTPException HTTP_403_FORBIDDEN) else Inr ())"

definition AccessTokenCompanyBearer_verify_token_data :: "redis \<Rightarrow> token_data \<Rightarrow> error + unit" where
  "AccessTokenCompanyBearer_verify_token_data r token_data =
     (if td_refresh token_data then Inl (HTTPException HTTP_403_FORBIDDEN)
      else (case check_jti_in_whitelist r (td_id token_data) (td_jti token_data) ''company'' of
              Inl e \<Rightarrow> Inl e
            | Inr present \<Rightarrow>
                if \<not> present then Inl (HTTPException HTTP_403_FORBIDDEN) else Inr ()))"

definition AccessTokenUserBearer_verify_token_data :: "redis \<Rightarrow> token_data \<Rightarrow> error + unit" where
  "AccessTokenUserBearer_verify_token_data r token_data =
     (if td_refresh token_data then Inl (HTTPException HTTP_403_FORBIDDEN)
      else (case check_jti_in_whitelist r (td_id token_data) (td_jti token_data) ''user'' of
              Inl e \<Rightarrow> Inl e
            | Inr present \<Rightarrow>
                if \<not> present then Inl (HTTPException HTTP_403_FORBIDDEN) else Inr ()))"

text \<open>The three dependencies the routes use.\<close>

definition AccessTokenBearer :: "libs \<Rightarrow> string option \<Rightarrow> error + string" where
  "AccessTokenBearer L = TokenBearer_call L AccessTokenBearer_verify_token_data"

definition AccessTokenCompanyBearer :: "libs \<Rightarrow> redis \<Rightarrow> string option \<Rightarrow> error + string" where
  "AccessTokenCompanyBearer L r = TokenBearer_call L (AccessTokenCompanyBearer_verify_token_data r)"

definition AccessTokenUserBearer :: "libs \<Rightarrow> redis \<Rightarrow> string option \<Rightarrow> error + string" where
  "AccessTokenUserBearer L r = TokenBearer_call L (AccessTokenUserBearer_verify_token_data r)"

section \<open>Schemas (schemas/business.py, schemas/user.py)\<close>

text \<open>
  A string is a list of characters and \<open>length\<close> plays the part of \<open>len\<close>.  A date
  is its proleptic ordinal, so the comparison of dates is the comparison of integers and,
  as in the source language, every date is truthy.
\<close>

type_synonym date = int

datatype PromoMode = COMMON | UNIQUE

text \<open>A field of a schema that tells "not in the input" from "given" (also given as
  null): \<open>model_dump(exclude_unset=True)\<close> and the \<open>before\<close> validator of
  \<open>Target.country\<close> depend on the difference.\<close>

datatype 'a fld = Unset | Given 'a

fun fld_value :: "'a option fld \<Rightarrow> 'a option" where
  "fld_value Unset = None"
| "fld_value (Given v) = v"

definition val_email :: "libs \<Rightarrow> string \<Rightarrow> error + string" where
  "val_email L v =
     (case validate_email L v of
        None \<Rightarrow> Inl (HTTPException HTTP_400_BAD_REQUEST)
      | Some email \<Rightarrow>
          if \<not> (5 \<le> length email \<and> length email \<le> 50)
          then Inl (HTTPException HTTP_400_BAD_REQUEST)
          else Inr email)"

text \<open>In \<open>val_password\<close> the exception is built and dropped: the statement has no
  \<open>raise\<close>.  \<open>dropped\<close> is that value.\<close>

definition val_password :: "libs \<Rightarrow> string \<Rightarrow> error + string" where
  "val_password L v =
     (let dropped =
            (if \<not> (password_pattern_match L v \<and> length v \<le> 60 \<and> length v \<ge> 8)
             then Some (HTTPException HTTP_400_BAD_REQUEST) else None)
      in Inr v)"

definition val_httpurl :: "libs \<Rightarrow> string \<Rightarrow> error + string" where
  "val_httpurl L v =
     (if \<not> httpurl_pattern_match L v \<and> length v > 350
      then Inl (HTTPException HTTP_400_BAD_REQUEST)
      else Inr v)"

definition len_between :: "nat \<Rightarrow> nat \<Rightarrow> 'a list \<Rightarrow> bool" where
  "len_between lo hi s = (lo \<le> length s \<and> length s \<le> hi)"

text \<open>Truthiness of an optional string or list, and of an optional integer.\<close>

definition truthy_seq :: "'a list option \<Rightarrow> bool" where
  "truthy_seq x = (case x of None \<Rightarrow> False | Some s \<Rightarrow> s \<noteq> [])"

definition truthy_int :: "int option \<Rightarrow> bool" where
  "truthy_int x = (case x of None \<Rightarrow> False | Some n \<Rightarrow> n \<noteq> 0)"

subsection \<open>Target\<close>

record Target =
  t_age_from :: "int option fld"
  t_age_until :: "int option fld"
  t_country :: "string option fld"
  t_categories :: "string list option fld"

text \<open>The constraints \<open>ge=0, le=100\<close> of the two ages, and those of the category list
  (at most 20 names of 2 to 20 characters).  A field that is absent or null passes.\<close>

definition age_field_ok :: "int option fld \<Rightarrow> bool" where
  "age_field_ok f = (case fld_value f of None \<Rightarrow> True | Some a \<Rightarrow> 0 \<le> a \<and> a \<le> 100)"

definition categories_field_ok :: "string list option fld \<Rightarrow> bool" where
  "categories_field_ok f =
     (case fld_value f of
        None \<Rightarrow> True
      | Some cs \<Rightarrow> length cs \<le> 20 \<and> list_all (len_between 2 20) cs)"

text \<open>\<open>Target.convert_country\<close>, the \<open>before\<close> validator of \<open>country\<close>.  It runs on a
  value that is given, also on null, and not on the default of an absent field.\<close>

definition convert_country :: "libs \<Rightarrow> string option \<Rightarrow> error + string" where
  "convert_country L v =
     (case v of
        Some s \<Rightarrow> Inr (str_upper L s)
      | None \<Rightarrow> Inl (HTTPException HTTP_400_BAD_REQUEST))"

text \<open>Building a \<open>Target\<close>.  The exception of \<open>convert_country\<close> leaves the validation at
  once; the failures of field constraints are collected into one \<open>ValidationError\<close>.
  The result holds the country in upper case.\<close>

definition Target_validate :: "libs \<Rightarrow> Target \<Rightarrow> error + Target" where
  "Target_validate L t =
     (case t_country t of
        Unset \<Rightarrow>
          if age_field_ok (t_age_from t) \<and> age_field_ok (t_age_until t)
             \<and> categories_field_ok (t_categories t)
          then Inr t else Inl ValidationError
      | Given v \<Rightarrow>
          (case convert_country L v of
             Inl e \<Rightarrow> Inl e
           | Inr c \<Rightarrow>
               if age_field_ok (t_age_from t) \<and> age_field_ok (t_age_until t)
                  \<and> country_alpha2 L c \<and> categories_field_ok (t_categories t)
               then Inr (t\<lparr>t_country := Given (Some c)\<rparr>) else Inl ValidationError))"

definition Target_option_validate :: "libs \<Rightarrow> Target option \<Rightarrow> error + Target option" where
  "Target_option_validate L x =
     (case x of
        None \<Rightarrow> Inr None
      | Some t \<Rightarrow> (case Target_validate L t of Inl e \<Rightarrow> Inl e | Inr t' \<Rightarrow> Inr (Some t')))"

text \<open>Constraints that several schemas repeat: \<open>description\<close> (10 to 300 characters),
  \<open>image_url\<close> (\<open>val_httpurl\<close> on a string of at most 350 characters), \<open>max_count\<close>
  (\<open>gt=0, le=100000000\<close>), \<open>promo_common\<close> (5 to 30 characters) and \<open>promo_unique\<close>
  (1 to 5000 codes of 3 to 30 characters).\<close>

definition image_url_field_ok :: "libs \<Rightarrow> string option \<Rightarrow> bool" where
  "image_url_field_ok L x =
     (case x of
        None \<Rightarrow> True
      | Some v \<Rightarrow> length v \<le> 350 \<and> val_httpurl L v = Inr v)"

definition max_count_field_ok :: "int \<Rightarrow> bool" where
  "max_count_field_ok n = (0 < n \<and> n \<le> 100000000)"

definition promo_common_field_ok :: "string option \<Rightarrow> bool" where
  "promo_common_field_ok x = (case x of None \<Rightarrow> True | Some s \<Rightarrow> len_between 5 30 s)"

definition promo_unique_field_ok :: "string list option \<Rightarrow> bool" where
  "promo_unique_field_ok x =
     (case x of
        None \<Rightarrow> True
      | Some cs \<Rightarrow> len_between 1 5000 cs \<and> list_all (len_between 3 30) cs)"

subsection \<open>PromoCreateRequest\<close>

record PromoCreateRequest =
  req_description :: string
  req_image_url :: "string option"
  req_target :: "Target option"
  req_max_count :: int
  req_active_from :: "date option"
  req_active_until :: "date option"
  req_mode :: PromoMode
  req_promo_common :: "string option"
  req_promo_unique :: "string list option"

text \<open>The model validator \<open>PromoCreateRequest.check_promo_codes\<close>.\<close>

definition check_promo_codes :: "PromoCreateRequest \<Rightarrow> error + PromoCreateRequest" where
  "check_promo_codes self =
     (let bad = Inl (HTTPException HTTP_400_BAD_REQUEST);
          codes =
            (case req_mode self of
               COMMON \<Rightarrow>
                 if \<not> truthy_seq (req_promo_common self) then Some bad
                 else if truthy_seq (req_promo_unique self) then Some bad
                 else None
             | UNIQUE \<Rightarrow>
                 if \<not> (req_max_count self \<noteq> 1) then Some bad
                 else if \<not> truthy_seq (req_promo_unique self) then Some bad
                 else if truthy_seq (req_promo_common self) then Some bad
                 else None)
      in case codes of
           Some raised \<Rightarrow> raised
         | None \<Rightarrow>
             (case (req_active_from self, req_active_until self) of
                (Some active_from, Some active_until) \<Rightarrow>
                  if active_from \<ge> active_until then bad else Inr self
              | _ \<Rightarrow> Inr self))"

text \<open>Validation of a create body: the fields in their order, then, when no field has
  failed, the model validator.\<close>

definition PromoCreateRequest_validate :: "libs \<Rightarrow> PromoCreateRequest \<Rightarrow> error + PromoCreateRequest" where
  "PromoCreateRequest_validate L raw =
     (case Target_option_validate L (req_target raw) of
        Inl e \<Rightarrow> Inl e
      | Inr target \<Rightarrow>
          if len_between 10 300 (req_description raw)
             \<and> image_url_field_ok L (req_image_url raw)
             \<and> max_count_field_ok (req_max_count raw)
             \<and> promo_common_field_ok (req_promo_common raw)
             \<and> promo_unique_field_ok (req_promo_unique raw)
          then check_promo_codes (raw\<lparr>req_target := target\<rparr>)
          else Inl ValidationError)"

subsection \<open>PromoPatch\<close>

text \<open>A top-level field of a patch is \<open>None\<close> when the body leaves it out or gives
  null: \<open>update_company_promo\<close> skips both.\<close>

record PromoPatch =
  patch_description :: "string option"
  patch_image_url :: "string option"
  patch_target :: "Target option"
  patch_max_count :: "int option"
  patch_active_from :: "date option"
  patch_active_until :: "date option"

definition check_data :: "PromoPatch \<Rightarrow> error + PromoPatch" where
  "check_data self =
     (case (patch_active_from self, patch_active_until self) of
        (Some active_from, Some active_until) \<Rightarrow>
          if active_from > active_until then Inl (HTTPException HTTP_400_BAD_REQUEST)
          else Inr self
      | _ \<Rightarrow> Inr self)"

definition PromoPatch_validate :: "libs \<Rightarrow> PromoPatch \<Rightarrow> error + PromoPatch" where
  "PromoPatch_validate L raw =
     (case Target_option_validate L (patch_target raw) of
        Inl e \<Rightarrow> Inl e
      | Inr target \<Rightarrow>
          if (case patch_description raw of None \<Rightarrow> True | Some d \<Rightarrow> len_between 10 300 d)
             \<and> image_url_field_ok L (patch_image_url raw)
             \<and> (case patch_max_count raw of None \<Rightarrow> True | Some n \<Rightarrow> max_count_field_ok n)
          then check_data (raw\<lparr>patch_target := target\<rparr>)
          else Inl ValidationError)"

subsection \<open>Sign-up and sign-in bodies\<close>

record CompanySignUpRequest =
  csu_name :: string
  csu_email :: string
  csu_password :: string

record CompanySignInRequest =
  csi_email :: string
  csi_password :: string

record UserTargetSettings =
  uts_age :: int
  uts_country :: string

record UserRegister =
  ur_name :: string
  ur_surname :: string
  ur_email :: string
  ur_avatar_url :: "string option"
  ur_other :: UserTargetSettings
  ur_password :: string

record UserSignIn =
  usi_email :: string
  usi_password :: string

definition CompanySignUpRequest_validate ::
  "libs \<Rightarrow> CompanySignUpRequest \<Rightarrow> error + CompanySignUpRequest" where
  "CompanySignUpRequest_validate L raw =
     (case val_email L (csu_email raw) of
        Inl e \<Rightarrow> Inl e
      | Inr email \<Rightarrow>
          (case val_password L (csu_password raw) of
             Inl e \<Rightarrow> Inl e
           | Inr password \<Rightarrow>
               if len_between 5 50 (csu_name raw)
               then Inr (raw\<lparr>csu_email := email, csu_password := password\<rparr>)
               else Inl ValidationError))"

definition CompanySignInRequest_validate ::
  "libs \<Rightarrow> CompanySignInRequest \<Rightarrow> error + CompanySignInRequest" where
  "CompanySignInRequest_validate L raw =
     (case val_email L (csi_email raw) of
        Inl e \<Rightarrow> Inl e
      | Inr email \<Rightarrow>
          (case val_password L (csi_password raw) of
             Inl e \<Rightarrow> Inl e
           | Inr password \<Rightarrow> Inr \<lparr>csi_email = email, csi_password = password\<rparr>))"

definition UserSignIn_validate :: "libs \<Rightarrow> UserSignIn \<Rightarrow> error + UserSignIn" where
  "UserSignIn_validate L raw =
     (case val_email L (usi_email raw) of
        Inl e \<Rightarrow> Inl e
      | Inr email \<Rightarrow>
          (case val_password L (usi_password raw) of
             Inl e \<Rightarrow> Inl e
           | Inr password \<Rightarrow> Inr \<lparr>usi_email = email, usi_password = password\<rparr>))"

text \<open>\<open>UserRegister\<close>: the fields of \<open>User\<close> in their order, then \<open>password\<close>.
  An \<open>avatar_url\<close> of \<open>None\<close> is one the body leaves out.\<close>

definition UserRegister_validate :: "libs \<Rightarrow> UserRegister \<Rightarrow> error + UserRegister" where
  "UserRegister_validate L raw =
     (case val_email L (ur_email raw) of
        Inl e \<Rightarrow> Inl e
      | Inr email \<Rightarrow>
          (case (case ur_avatar_url raw of
                   None \<Rightarrow> Inr None
                 | Some a \<Rightarrow> (case val_httpurl L a of Inl e \<Rightarrow> Inl e | Inr a' \<Rightarrow> Inr (Some a'))) of
             Inl e \<Rightarrow> Inl e
           | Inr avatar_url \<Rightarrow>
               (case val_password L (ur_password raw) of
                  Inl e \<Rightarrow> Inl e
                | Inr password \<Rightarrow>
                    if len_between 1 100 (ur_name raw) \<and> len_between 1 120 (ur_surname raw)
                       \<and> 0 \<le> uts_age (ur_other raw) \<and> uts_age (ur_other raw) \<le> 100
                       \<and> country_alpha2 L (uts_country (ur_other raw))
                    then Inr (raw\<lparr>ur_email := email, ur_avatar_url := avatar_url,
                                   ur_password := password\<rparr>)
                    else Inl ValidationError)))"

subsection \<open>CompanyDTO and PromoDTO\<close>

record CompanyDTO =
  cdto_id :: string
  cdto_name :: string
  cdto_email :: string
  cdto_password :: string

record PromoDTO =
  dto_id :: string
  dto_company_id :: string
  dto_description :: string
  dto_image_url :: "string option"
  dto_target :: Target
  dto_max_count :: int
  dto_active_from :: "date option"
  dto_active_until :: "date option"
  dto_mode :: PromoMode
  dto_active :: bool
  dto_like_count :: int
  dto_used_count :: int
  dto_promo_common :: "string option"
  dto_promo_unique :: "string list option"

section \<open>Rows and tables (models/business.py, models/user.py)\<close>

text \<open>
  A table with a primary key is a map from the key to the row without the key; a query
  by that key is a lookup.  The tables of users and companies are read by e-mail, which
  is no key of the model, so they are lists of rows and a query is a \<open>filter\<close>.  The
  codes and the categories of a promo, which the source reaches through relationships,
  are lists held in the promo's row.
\<close>

record UserORM =
  u_id :: string
  u_name :: string
  u_surname :: string
  u_email :: string
  u_password :: string
  u_avatar_url :: "string option"

record CompanyORM =
  c_id :: string
  c_name :: string
  c_email :: string
  c_password :: string

record UniquePromocodeORM =
  promocode :: string
  is_active :: bool

record PromocodeORM =
  p_company_id :: string
  p_description :: string
  p_image_url :: "string option"
  p_age_from :: "int option"
  p_age_until :: "int option"
  p_country :: "string option"
  p_active_from :: "date option"
  p_active_until :: "date option"
  p_max_count :: int
  p_mode :: PromoMode
  p_active :: bool
  p_like_count :: int
  p_used_count :: int
  p_promo_common :: "string option"
  p_unique_promos :: "UniquePromocodeORM list"
  p_categories :: "string list"

record PromoUserORM =
  pu_activated :: bool
  pu_liked :: bool

record CommentORM =
  cm_text :: string
  cm_date :: int
  cm_author :: string
  cm_promo_id :: string

record db =
  users :: "UserORM list"
  companies :: "CompanyORM list"
  promos :: "string \<rightharpoonup> PromocodeORM"
  users_promos :: "string \<times> string \<rightharpoonup> PromoUserORM"
  comments :: "string \<rightharpoonup> CommentORM"

text \<open>
  What the tables declare, the store enforces at a commit, and a refused commit raises.
  Every engine enforces the primary keys, the columns that are not nullable
  (\<open>country: Mapped[str]\<close> of a promo is one; the other such columns of a promo always
  hold a value) and the foreign keys (\<open>promos.company_id\<close> refers to \<open>companies.id\<close>,
  \<open>users_promos.user_id\<close> to \<open>users.id\<close>).  The declared widths of the string columns
  of a promo, \<open>String(200)\<close> for \<open>description\<close> and \<open>image_url\<close> and \<open>String(2)\<close> for
  \<open>country\<close>, are enforced by some engines only (PostgreSQL, which the configuration
  names, enforces them): whether the engine does is the parameter \<open>enforces_varchar\<close>.
\<close>

record store =
  enforces_varchar :: bool

definition column_widths_ok :: "store \<Rightarrow> string \<Rightarrow> string option \<Rightarrow> string option \<Rightarrow> bool" where
  "column_widths_ok st description image_url country =
     (if enforces_varchar st
      then length description \<le> 200
           \<and> (case image_url of None \<Rightarrow> True | Some v \<Rightarrow> length v \<le> 200)
           \<and> (case country of None \<Rightarrow> True | Some c \<Rightarrow> length c \<le> 2)
      else True)"

text \<open>The columns of a promo row that a write can change: \<open>country\<close> is not nullable,
  and the widths.\<close>

definition promo_columns_accepted :: "store \<Rightarrow> PromocodeORM \<Rightarrow> bool" where
  "promo_columns_accepted st model =
     (p_country model \<noteq> None
      \<and> column_widths_ok st (p_description model) (p_image_url model) (p_country model))"

text \<open>The foreign keys of a new promo row and of a new engagement row.\<close>

definition company_row_exists :: "db \<Rightarrow> string \<Rightarrow> bool" where
  "company_row_exists d company_id = list_ex (\<lambda>c. c_id c = company_id) (companies d)"

definition user_row_exists :: "db \<Rightarrow> string \<Rightarrow> bool" where
  "user_row_exists d user_id = list_ex (\<lambda>u. u_id u = user_id) (users d)"

section \<open>Sign-in (services/user_service.py, services/company_service.py)\<close>

definition user_sign_in ::
  "libs \<Rightarrow> string \<Rightarrow> int \<Rightarrow> UserSignIn \<Rightarrow> db \<Rightarrow> redis \<Rightarrow> (error + string) \<times> redis" where
  "user_sign_in L token_uuid now data d r =
     (case scalar_one_or_none (filter (\<lambda>u. u_email u = usi_email data) (users d)) of
        Inl e \<Rightarrow> (Inl e, r)
      | Inr None \<Rightarrow> (Inl (HTTPException HTTP_401_UNAUTHORIZED), r)
      | Inr (Some result_orm) \<Rightarrow>
          if \<not> verify_password L (usi_password data) (u_password result_orm)
          then (Inl (HTTPException HTTP_401_UNAUTHORIZED), r)
          else
            (case create_access_token L token_uuid now (u_id result_orm) False of
               Inl e \<Rightarrow> (Inl e, r)
             | Inr (new_token_jti, new_token) \<Rightarrow>
                 (case flush_all_jti_from_whitelist r (u_id result_orm) ''user'' of
                    Inl e \<Rightarrow> (Inl e, r)
                  | Inr r1 \<Rightarrow>
                      (case add_jti_to_whitelist r1 (u_id result_orm) new_token_jti ''user'' of
                         Inl e \<Rightarrow> (Inl e, r1)
                       | Inr r2 \<Rightarrow> (Inr new_token, r2)))))"

text \<open>\<open>CompanyDTO.model_validate(result_orm, from_attributes=True)\<close>: \<open>name\<close> of 5 to 50
  characters, \<open>email\<close> through \<open>val_email\<close>, \<open>password\<close> and \<open>id\<close> any string.\<close>

definition CompanyDTO_model_validate :: "libs \<Rightarrow> CompanyORM \<Rightarrow> error + CompanyDTO" where
  "CompanyDTO_model_validate L row =
     (case val_email L (c_email row) of
        Inl e \<Rightarrow> Inl e
      | Inr email \<Rightarrow>
          if len_between 5 50 (c_name row)
          then Inr \<lparr>cdto_id = c_id row, cdto_name = c_name row, cdto_email = email,
                    cdto_password = c_password row\<rparr>
          else Inl ValidationError)"

definition get_company_by_email :: "libs \<Rightarrow> string \<Rightarrow> db \<Rightarrow> error + CompanyDTO option" where
  "get_company_by_email L email d =
     (case scalar_one_or_none (filter (\<lambda>c. c_email c = email) (companies d)) of
        Inl e \<Rightarrow> Inl e
      | Inr None \<Rightarrow> Inr None
      | Inr (Some result_orm) \<Rightarrow>
          (case CompanyDTO_model_validate L result_orm of
             Inl e \<Rightarrow> Inl e
           | Inr result_dto \<Rightarrow> Inr (Some result_dto)))"

definition company_sign_in ::
  "libs \<Rightarrow> string \<Rightarrow> int \<Rightarrow> CompanySignInRequest \<Rightarrow> db \<Rightarrow> redis \<Rightarrow> (error + string) \<times> redis" where
  "company_sign_in L token_uuid now company d r =
     (case get_company_by_email L (csi_email company) d of
        Inl e \<Rightarrow> (Inl e, r)
      | Inr None \<Rightarrow> (Inl (HTTPException HTTP_401_UNAUTHORIZED), r)
      | Inr (Some model) \<Rightarrow>
          if \<not> verify_password L (csi_password company) (cdto_password model)
          then (Inl (HTTPException HTTP_401_UNAUTHORIZED), r)
          else
            (case flush_all_jti_from_whitelist r (cdto_id model) ''company'' of
               Inl e \<Rightarrow> (Inl e, r)
             | Inr r1 \<Rightarrow>
                 (case create_access_token L token_uuid now (cdto_id model) False of
                    Inl e \<Rightarrow> (Inl e, r1)
                  | Inr (token_id, new_token) \<Rightarrow>
                      (case add_jti_to_whitelist r1 (cdto_id model) token_id ''company'' of
                         Inl e \<Rightarrow> (Inl e, r1)
                       | Inr r2 \<Rightarrow> (Inr new_token, r2)))))"

section \<open>Promo repository (utils/repository.py)\<close>

text \<open>\<open>str(x)\<close> of an optional string.\<close>

definition str_of_optional :: "string option \<Rightarrow> string" where
  "str_of_optional x = (case x of None \<Rightarrow> ''None'' | Some s \<Rightarrow> s)"

text \<open>The row \<open>create_promo\<close> builds from a validated body.  \<open>active\<close>, \<open>like_count\<close>
  and \<open>used_count\<close> take the defaults of their columns.\<close>

definition create_promo_model :: "PromoCreateRequest \<Rightarrow> string \<Rightarrow> PromocodeORM" where
  "create_promo_model data company_id =
     \<lparr>p_company_id = company_id,
      p_description = req_description data,
      p_image_url = Some (str_of_optional (req_image_url data)),
      p_age_from = (case req_target data of Some t \<Rightarrow> fld_value (t_age_from t) | None \<Rightarrow> None),
      p_age_until = (case req_target data of Some t \<Rightarrow> fld_value (t_age_until t) | None \<Rightarrow> None),
      p_country = (case req_target data of Some t \<Rightarrow> fld_value (t_country t) | None \<Rightarrow> None),
      p_active_from = req_active_from data,
      p_active_until = req_active_until data,
      p_max_count = req_max_count data,
      p_mode = req_mode data,
      p_active = True,
      p_like_count = 0,
      p_used_count = 0,
      p_promo_common = req_promo_common data,
      p_unique_promos =
        (if req_mode data = UNIQUE
         then map (\<lambda>un_promo. \<lparr>promocode = un_promo, is_active = True\<rparr>)
                  (case req_promo_unique data of Some cs \<Rightarrow> cs | None \<Rightarrow> [])
         else []),
      p_categories =
        (case req_target data of
           Some t \<Rightarrow> (case fld_value (t_categories t) of Some cs \<Rightarrow> cs | None \<Rightarrow> [])
         | None \<Rightarrow> [])\<rparr>"

text \<open>\<open>new_id\<close> is the key the store generates for the row.  The commit inserts the
  row when the key is new, the company exists and the columns are accepted.\<close>

definition create_promo ::
  "store \<Rightarrow> string \<Rightarrow> PromoCreateRequest \<Rightarrow> string \<Rightarrow> db \<Rightarrow> (error + string) \<times> db" where
  "create_promo st new_id data company_id d =
     (let model = create_promo_model data company_id
      in if promos d new_id = None \<and> company_row_exists d company_id
            \<and> promo_columns_accepted st model
         then (Inr new_id, d\<lparr>promos := (promos d)(new_id \<mapsto> model)\<rparr>)
         else (Inl StoreError, d))"

text \<open>The expression \<open>PromoDTO(id=model.id, ..., target=Target(...), ...)\<close> that the
  three reading functions of the repository repeat.  Both constructors validate.\<close>

definition PromoDTO_of_model :: "libs \<Rightarrow> string \<Rightarrow> PromocodeORM \<Rightarrow> error + PromoDTO" where
  "PromoDTO_of_model L promo_id model =
     (case Target_validate L
             \<lparr>t_age_from = Given (p_age_from model),
              t_age_until = Given (p_age_until model),
              t_country = Given (p_country model),
              t_categories = Given (Some (p_categories model))\<rparr> of
        Inl e \<Rightarrow> Inl e
      | Inr target \<Rightarrow>
          (let promo_unique =
                 (if p_unique_promos model \<noteq> []
                  then Some (map promocode (p_unique_promos model)) else None)
           in if len_between 10 300 (p_description model)
                 \<and> image_url_field_ok L (p_image_url model)
                 \<and> max_count_field_ok (p_max_count model)
                 \<and> promo_common_field_ok (p_promo_common model)
                 \<and> promo_unique_field_ok promo_unique
              then Inr \<lparr>dto_id = promo_id,
                        dto_company_id = p_company_id model,
                        dto_description = p_description model,
                        dto_image_url = p_image_url model,
                        dto_target = target,
                        dto_max_count = p_max_count model,
                        dto_active_from = p_active_from model,
                        dto_active_until = p_active_until model,
                        dto_mode = p_mode model,
                        dto_active = p_active model,
                        dto_like_count = p_like_count model,
                        dto_used_count = p_used_count model,
                        dto_promo_common = p_promo_common model,
                        dto_promo_unique = promo_unique\<rparr>
              else Inl ValidationError))"

definition get_company_promo_by_id :: "libs \<Rightarrow> string \<Rightarrow> string \<Rightarrow> db \<Rightarrow> error + PromoDTO" where
  "get_company_promo_by_id L company_id promo_id d =
     (case promos d promo_id of
        None \<Rightarrow> Inl (HTTPException HTTP_404_NOT_FOUND)
      | Some model \<Rightarrow>
          if p_company_id model \<noteq> company_id
          then Inl (HTTPException HTTP_403_FORBIDDEN)
          else PromoDTO_of_model L promo_id model)"

text \<open>The first loop of \<open>update_company_promo\<close>: every top-level field of the patch
  (the target apart) whose value is not \<open>None\<close> is written to the row.\<close>

definition set_update_data :: "PromoPatch \<Rightarrow> PromocodeORM \<Rightarrow> PromocodeORM" where
  "set_update_data data model =
     model\<lparr>p_description :=
             (case patch_description data of Some v \<Rightarrow> v | None \<Rightarrow> p_description model),
           p_image_url :=
             (case patch_image_url data of Some v \<Rightarrow> Some v | None \<Rightarrow> p_image_url model),
           p_max_count :=
             (case patch_max_count data of Some v \<Rightarrow> v | None \<Rightarrow> p_max_count model),
           p_active_from :=
             (case patch_active_from data of Some v \<Rightarrow> Some v | None \<Rightarrow> p_active_from model),
           p_active_until :=
             (case patch_active_until data of Some v \<Rightarrow> Some v | None \<Rightarrow> p_active_until model)\<rparr>"

text \<open>The second loop: every field of the target that the body gives (also as null) is
  written; a category list that is not \<open>None\<close> replaces the stored one.\<close>

definition set_target :: "Target option \<Rightarrow> PromocodeORM \<Rightarrow> PromocodeORM" where
  "set_target target model =
     (case target of
        None \<Rightarrow> model
      | Some t \<Rightarrow>
          model\<lparr>p_age_from :=
                  (case t_age_from t of Given v \<Rightarrow> v | Unset \<Rightarrow> p_age_from model),
                p_age_until :=
                  (case t_age_until t of Given v \<Rightarrow> v | Unset \<Rightarrow> p_age_until model),
                p_country :=
                  (case t_country t of Given v \<Rightarrow> v | Unset \<Rightarrow> p_country model),
                p_categories :=
                  (case fld_value (t_categories t) of
                     Some cats \<Rightarrow> cats
                   | None \<Rightarrow> p_categories model)\<rparr>)"

definition merged_model :: "PromoPatch \<Rightarrow> PromocodeORM \<Rightarrow> PromocodeORM" where
  "merged_model data model = set_target (patch_target data) (set_update_data data model)"

text \<open>The two conditions under which \<open>update_company_promo\<close> raises after the merge.  The
  source tests the operands of \<open>and\<close> for truth before it compares them: a date is
  truthy when it is not \<open>None\<close>, an age when it is neither \<open>None\<close> nor 0.\<close>

definition active_window_violated :: "PromocodeORM \<Rightarrow> bool" where
  "active_window_violated model =
     (case (p_active_from model, p_active_until model) of
        (Some active_from, Some active_until) \<Rightarrow> active_from \<ge> active_until
      | _ \<Rightarrow> False)"

definition age_range_violated :: "PromocodeORM \<Rightarrow> bool" where
  "age_range_violated model =
     (truthy_int (p_age_from model) \<and> truthy_int (p_age_until model)
      \<and> (case (p_age_from model, p_age_until model) of
            (Some age_from, Some age_until) \<Rightarrow> age_from \<ge> age_until
          | _ \<Rightarrow> False))"

text \<open>An exception before the commit, or a commit the store refuses, leaves the store
  as it was.  After the commit the row is stored, and the result is the \<open>PromoDTO\<close>
  built from it.\<close>

definition update_company_promo ::
  "libs \<Rightarrow> store \<Rightarrow> PromoPatch \<Rightarrow> string \<Rightarrow> string \<Rightarrow> db \<Rightarrow> (error + PromoDTO) \<times> db" where
  "update_company_promo L st data company_id promo_id d =
     (case promos d promo_id of
        None \<Rightarrow> (Inl (HTTPException HTTP_404_NOT_FOUND), d)
      | Some model0 \<Rightarrow>
          if p_company_id model0 \<noteq> company_id
          then (Inl (HTTPException HTTP_403_FORBIDDEN), d)
          else
            (let model = merged_model data model0
             in if active_window_violated model
                then (Inl (HTTPException HTTP_404_NOT_FOUND), d)
                else if age_range_violated model
                then (Inl (HTTPException HTTP_404_NOT_FOUND), d)
                else if \<not> promo_columns_accepted st model
                then (Inl StoreError, d)
                else (PromoDTO_of_model L promo_id model,
                      d\<lparr>promos := (promos d)(promo_id \<mapsto> model)\<rparr>)))"

section \<open>Engagement (services/user_service.py)\<close>

text \<open>\<open>like_promo\<close>.  When it adds an engagement row, the commit inserts it only if
  its \<open>user_id\<close> is the key of a user; otherwise the commit raises and nothing is
  stored.  (The promo the row refers to was found just before.)\<close>

definition like_promo :: "string \<Rightarrow> string \<Rightarrow> db \<Rightarrow> (error + unit) \<times> db" where
  "like_promo user_id promo_id d =
     (let result_orm = users_promos d (user_id, promo_id)
      in case promos d promo_id of
           None \<Rightarrow> (Inl (HTTPException HTTP_404_NOT_FOUND), d)
         | Some promo_orm \<Rightarrow>
             (case result_orm of
                None \<Rightarrow>
                  if user_row_exists d user_id
                  then
                  (Inr (),
                   d\<lparr>users_promos :=
                       (users_promos d)((user_id, promo_id) \<mapsto>
                          \<lparr>pu_activated = False, pu_liked = True\<rparr>),
                     promos :=
                       (promos d)(promo_id \<mapsto>
                          promo_orm\<lparr>p_like_count := p_like_count promo_orm + 1\<rparr>)\<rparr>)
                  else (Inl StoreError, d)
              | Some row \<Rightarrow>
                  if \<not> pu_liked row
                  then (Inr (),
                        d\<lparr>users_promos :=
                            (users_promos d)((user_id, promo_id) \<mapsto> row\<lparr>pu_liked := True\<rparr>),
                          promos :=
                            (promos d)(promo_id \<mapsto>
                               promo_orm\<lparr>p_like_count := p_like_count promo_orm + 1\<rparr>)\<rparr>)
                  else (Inr (), d)))"

definition unlike_promo :: "string \<Rightarrow> string \<Rightarrow> db \<Rightarrow> (error + unit) \<times> db" where
  "unlike_promo user_id promo_id d =
     (let result_orm = users_promos d (user_id, promo_id)
      in case promos d promo_id of
           None \<Rightarrow> (Inl (HTTPException HTTP_404_NOT_FOUND), d)
         | Some promo_orm \<Rightarrow>
             (case result_orm of
                None \<Rightarrow> (Inr (), d)
              | Some row \<Rightarrow>
                  if pu_liked row
                  then (Inr (),
                        d\<lparr>users_promos :=
                            (users_promos d)((user_id, promo_id) \<mapsto> row\<lparr>pu_liked := False\<rparr>),
                          promos :=
                            (promos d)(promo_id \<mapsto>
                               promo_orm\<lparr>p_like_count := p_like_count promo_orm - 1\<rparr>)\<rparr>)
                  else (Inr (), d)))"

subsection \<open>Comments\<close>

record CommentAuthor =
  ca_name :: string
  ca_surname :: string
  ca_avatar_url :: "string option"

record CommentGet =
  cg_id :: string
  cg_text :: string
  cg_date :: int
  cg_author :: CommentAuthor

text \<open>The query of \<open>get_comment_for_promo\<close> and \<open>put_comment\<close>: the comment with the given
  key, joined with its promo, where the promo's key is the given one.\<close>

definition select_comment :: "string \<Rightarrow> string \<Rightarrow> db \<Rightarrow> CommentORM option" where
  "select_comment comment_id promo_id d =
     (case comments d comment_id of
        None \<Rightarrow> None
      | Some c \<Rightarrow>
          if cm_promo_id c = promo_id \<and> promos d promo_id \<noteq> None then Some c else None)"

text \<open>\<open>CommentGet(id=..., text=..., date=..., author=CommentAuthor(...))\<close>.  The author is
  the row of \<open>users\<close> the comment refers to; \<open>text\<close> has 10 to 1000 characters.\<close>

definition CommentGet_of_model :: "string \<Rightarrow> CommentORM \<Rightarrow> db \<Rightarrow> error + CommentGet" where
  "CommentGet_of_model comment_id result_orm d =
     (case find (\<lambda>u. u_id u = cm_author result_orm) (users d) of
        None \<Rightarrow> Inl AttributeError
      | Some user \<Rightarrow>
          if len_between 10 1000 (cm_text result_orm)
          then Inr \<lparr>cg_id = comment_id, cg_text = cm_text result_orm,
                    cg_date = cm_date result_orm,
                    cg_author = \<lparr>ca_name = u_name user, ca_surname = u_surname user,
                                 ca_avatar_url = u_avatar_url user\<rparr>\<rparr>
          else Inl ValidationError)"

definition get_comment_for_promo :: "string \<Rightarrow> string \<Rightarrow> db \<Rightarrow> error + CommentGet" where
  "get_comment_for_promo comment_id promo_id d =
     (case select_comment comment_id promo_id d of
        None \<Rightarrow> Inl (HTTPException HTTP_404_NOT_FOUND)
      | Some result_orm \<Rightarrow> CommentGet_of_model comment_id result_orm d)"

definition put_comment :: "string \<Rightarrow> string \<Rightarrow> string \<Rightarrow> db \<Rightarrow> (error + CommentGet) \<times> db" where
  "put_comment text comment_id promo_id d =
     (case select_comment comment_id promo_id d of
        None \<Rightarrow> (Inl (HTTPException HTTP_404_NOT_FOUND), d)
      | Some result_orm0 \<Rightarrow>
          (let result_orm = result_orm0\<lparr>cm_text := text\<rparr>;
               d' = d\<lparr>comments := (comments d)(comment_id \<mapsto> result_orm)\<rparr>
           in (CommentGet_of_model comment_id result_orm d', d')))"

section \<open>Routes (api/user.py, api/business.py)\<close>

text \<open>\<open>get_user_uuid_from_token\<close> and \<open>get_company_uuid_from_token\<close> are the same
  function in the two services.\<close>

definition get_uuid_from_token :: "libs \<Rightarrow> string \<Rightarrow> error + string" where
  "get_uuid_from_token L token =
     (case jwt_decode L token of
        Some token_data \<Rightarrow> Inr (td_id token_data)
      | None \<Rightarrow> Inl (HTTPException HTTP_400_BAD_REQUEST))"

definition user_is_exist_in_db :: "string \<Rightarrow> db \<Rightarrow> error + bool" where
  "user_is_exist_in_db ident d =
     (case scalar_one_or_none (filter (\<lambda>u. u_id u = ident) (users d)) of
        Inl e \<Rightarrow> Inl e
      | Inr result \<Rightarrow> Inr (result \<noteq> None))"

definition get_company_by_id :: "libs \<Rightarrow> string \<Rightarrow> db \<Rightarrow> error + CompanyDTO option" where
  "get_company_by_id L ident d =
     (case scalar_one_or_none (filter (\<lambda>c. c_id c = ident) (companies d)) of
        Inl e \<Rightarrow> Inl e
      | Inr None \<Rightarrow> Inr None
      | Inr (Some result_orm) \<Rightarrow>
          (case CompanyDTO_model_validate L result_orm of
             Inl e \<Rightarrow> Inl e
           | Inr result_dto \<Rightarrow> Inr (Some result_dto)))"

definition company_is_exist_in_db :: "libs \<Rightarrow> string \<Rightarrow> db \<Rightarrow> error + bool" where
  "company_is_exist_in_db L ident d =
     (case get_company_by_id L ident d of
        Inl e \<Rightarrow> Inl e
      | Inr result \<Rightarrow> Inr (result \<noteq> None))"

text \<open>
  The route \<open>DELETE /user/promo/{id}/comments/{comment_id}\<close>.  Its body calls
  \<open>user_service.delete_comment(...)\<close>.  The class \<open>UserService\<close> defines \<open>__call__\<close>,
  \<open>create_access_token\<close>, \<open>get_user_uuid_from_token\<close>, \<open>is_exist_in_db\<close>,
  \<open>user_sign_up\<close>, \<open>user_sign_in\<close>, \<open>get_user_profile\<close>, \<open>patch_user_profile\<close>,
  \<open>get_promos\<close>, \<open>get_promo\<close>, \<open>like_promo\<close>, \<open>unlike_promo\<close>, \<open>add_comment\<close>,
  \<open>get_comments_for_promo\<close>, \<open>get_comment_for_promo\<close> and \<open>put_comment\<close>, and no
  \<open>delete_comment\<close>: reading the attribute raises before anything is called.
\<close>

type_synonym delete_method = "string \<Rightarrow> string \<Rightarrow> string \<Rightarrow> db \<Rightarrow> (error + unit) \<times> db"

text \<open>The value of the attribute \<open>delete_comment\<close> of \<open>user_service\<close>: there is none.\<close>

definition UserService_delete_comment :: "delete_method option" where
  "UserService_delete_comment = None"

definition delete_comment ::
  "libs \<Rightarrow> redis \<Rightarrow> string option \<Rightarrow> string \<Rightarrow> string \<Rightarrow> db \<Rightarrow> (error + unit) \<times> db" where
  "delete_comment L r auth_data ident comment_id d =
     (case AccessTokenUserBearer L r auth_data of
        Inl e \<Rightarrow> (Inl e, d)
      | Inr credentials \<Rightarrow>
          (case get_uuid_from_token L credentials of
             Inl e \<Rightarrow> (Inl e, d)
           | Inr user_id \<Rightarrow>
               (case user_is_exist_in_db user_id d of
                  Inl e \<Rightarrow> (Inl e, d)
                | Inr exists \<Rightarrow>
                    if exists
                    then (case UserService_delete_comment of
                            None \<Rightarrow> (Inl AttributeError, d)
                          | Some method \<Rightarrow> method user_id comment_id ident d)
                    else (Inl (HTTPException HTTP_401_UNAUTHORIZED), d))))"

text \<open>The routes \<open>POST /business/promo\<close>, \<open>GET /business/promo/{id}\<close> and
  \<open>PATCH /business/promo/{id}\<close>.  The framework resolves the bearer dependency, then
  validates the body, then runs the handler.\<close>

definition business_create_promo ::
  "libs \<Rightarrow> store \<Rightarrow> string \<Rightarrow> redis \<Rightarrow> string option \<Rightarrow> PromoCreateRequest \<Rightarrow> db
     \<Rightarrow> (error + string) \<times> db" where
  "business_create_promo L st new_id r auth_data raw d =
     (case AccessTokenCompanyBearer L r auth_data of
        Inl e \<Rightarrow> (Inl e, d)
      | Inr credentials \<Rightarrow>
          (case PromoCreateRequest_validate L raw of
             Inl e \<Rightarrow> (Inl e, d)
           | Inr data \<Rightarrow>
               (case get_uuid_from_token L credentials of
                  Inl e \<Rightarrow> (Inl e, d)
                | Inr company_id \<Rightarrow>
                    (case company_is_exist_in_db L company_id d of
                       Inl e \<Rightarrow> (Inl e, d)
                     | Inr exists \<Rightarrow>
                         if exists
                         then create_promo st new_id data company_id d
                         else (Inl (HTTPException HTTP_401_UNAUTHORIZED), d)))))"

definition business_get_promo ::
  "libs \<Rightarrow> redis \<Rightarrow> string option \<Rightarrow> string \<Rightarrow> db \<Rightarrow> error + PromoDTO" where
  "business_get_promo L r auth_data ident d =
     (case AccessTokenCompanyBearer L r auth_data of
        Inl e \<Rightarrow> Inl e
      | Inr credentials \<Rightarrow>
          (case get_uuid_from_token L credentials of
             Inl e \<Rightarrow> Inl e
           | Inr company_id \<Rightarrow>
               (case company_is_exist_in_db L company_id d of
                  Inl e \<Rightarrow> Inl e
                | Inr exists \<Rightarrow>
                    if exists
                    then get_company_promo_by_id L company_id ident d
                    else Inl (HTTPException HTTP_401_UNAUTHORIZED))))"

definition business_update_promo ::
  "libs \<Rightarrow> store \<Rightarrow> redis \<Rightarrow> string option \<Rightarrow> PromoPatch \<Rightarrow> string \<Rightarrow> db
     \<Rightarrow> (error + PromoDTO) \<times> db" where
  "business_update_promo L st r auth_data raw ident d =
     (case AccessTokenCompanyBearer L r auth_data of
        Inl e \<Rightarrow> (Inl e, d)
      | Inr credentials \<Rightarrow>
          (case PromoPatch_validate L raw of
             Inl e \<Rightarrow> (Inl e, d)
           | Inr data \<Rightarrow>
               (case get_uuid_from_token L credentials of
                  Inl e \<Rightarrow> (Inl e, d)
                | Inr company_id \<Rightarrow>
                    (case company_is_exist_in_db L company_id d of
                       Inl e \<Rightarrow> (Inl e, d)
                     | Inr exists \<Rightarrow>
                         if exists
                         then update_company_promo L st data company_id ident d
                         else (Inl (HTTPException HTTP_401_UNAUTHORIZED), d)))))"

section \<open>Sample data\<close>

text \<open>A concrete instance of the libraries and of the two stores, on which the
  theorems below are run.  A sample token is the principal's id, a slash and the token
  identifier; \<open>refresh-token\<close> decodes to a payload marked \<open>refresh\<close>.  The sample
  password pattern matches nothing.\<close>

definition sample_decode :: "string \<Rightarrow> token_data option" where
  "sample_decode s =
     (if s = ''refresh-token''
      then Some \<lparr>td_id = ''u1'', td_jti = ''j-old'', td_exp = 86400, td_refresh = True\<rparr>
      else if CHR ''/'' \<in> set s
      then Some \<lparr>td_id = takeWhile (\<lambda>c. c \<noteq> CHR ''/'') s,
                 td_jti = drop 1 (dropWhile (\<lambda>c. c \<noteq> CHR ''/'') s),
                 td_exp = 86400, td_refresh = False\<rparr>
      else None)"

definition sample_libs :: libs where
  "sample_libs =
     \<lparr>jwt_encode = (\<lambda>payload. Some (td_id payload @ ''/'' @ td_jti payload)),
      jwt_decode = sample_decode,
      verify_password = (\<lambda>password_text password_hash. password_hash = ''hash:'' @ password_text),
      hash_password = (\<lambda>password_text. ''hash:'' @ password_text),
      validate_email = (\<lambda>v. if CHR ''@'' \<in> set v then Some v else None),
      password_pattern_match = (\<lambda>v. False),
      httpurl_pattern_match = (\<lambda>v. take 4 v = ''http''),
      country_alpha2 = (\<lambda>c. c \<in> set [''RU'', ''US'']),
      str_upper = map (\<lambda>c. if c = CHR ''r'' then CHR ''R'' else if c = CHR ''u'' then CHR ''U''
                            else if c = CHR ''s'' then CHR ''S'' else c)\<rparr>"

definition sample_promo :: PromocodeORM where
  "sample_promo =
     \<lparr>p_company_id = ''c1'',
      p_description = ''Ten percent off'',
      p_image_url = Some ''None'',
      p_age_from = Some 5,
      p_age_until = Some 30,
      p_country = Some ''RU'',
      p_active_from = Some 738886,
      p_active_until = Some 739038,
      p_max_count = 10,
      p_mode = COMMON,
      p_active = True,
      p_like_count = 0,
      p_used_count = 0,
      p_promo_common = Some ''SALE10'',
      p_unique_promos = [],
      p_categories = [''food'']\<rparr>"

definition sample_db :: db where
  "sample_db =
     \<lparr>users = [\<lparr>u_id = ''u1'', u_name = ''Ann'', u_surname = ''Lee'',
                 u_email = ''ann@example.com'', u_password = ''hash:pw'',
                 u_avatar_url = None\<rparr>],
      companies = [\<lparr>c_id = ''c1'', c_name = ''Acme Corp'', c_email = ''acme@example.com'',
                     c_password = ''hash:pw''\<rparr>,
                   \<lparr>c_id = ''c2'', c_name = ''Bolt Corp'', c_email = ''bolt@example.com'',
                     c_password = ''hash:pw''\<rparr>],
      promos = [''p1'' \<mapsto> sample_promo],
      users_promos = Map.empty,
      comments = [''k1'' \<mapsto> \<lparr>cm_text = ''Great promo, thanks!'', cm_date = 0,
                                cm_author = ''u1'', cm_promo_id = ''p1''\<rparr>]\<rparr>"

definition sample_redis :: redis where
  "sample_redis =
     (\<lambda>key. {})(''whitelist:users:u1'' := {''j-old''},
               ''whitelist:companies:c1'' := {''j-old''},
               ''whitelist:companies:c2'' := {''j-b''})"

definition sample_request :: PromoCreateRequest where
  "sample_request =
     \<lparr>req_description = ''Ten percent off'',
      req_image_url = None,
      req_target = Some \<lparr>t_age_from = Given (Some 5), t_age_until = Given (Some 30),
                          t_country = Given (Some ''ru''),
                          t_categories = Given (Some [''food''])\<rparr>,
      req_max_count = 10,
      req_active_from = Some 738886,
      req_active_until = Some 739038,
      req_mode = COMMON,
      req_promo_common = Some ''SALE10'',
      req_promo_unique = None\<rparr>"

definition sample_store :: store where
  "sample_store = \<lparr>enforces_varchar = True\<rparr>"


definition sample_age_patch :: "int option fld \<Rightarrow> int option fld \<Rightarrow> PromoPatch" where
  "sample_age_patch age_from age_until =
     \<lparr>patch_description = None, patch_image_url = None,
      patch_target = Some \<lparr>t_age_from = age_from, t_age_until = age_until,
                            t_country = Unset, t_categories = Unset\<rparr>,
      patch_max_count = None, patch_active_from = None, patch_active_until = None\<rparr>"




section \<open>Sessions: sign-in and the bearer checks\<close>

lemma whitelist_key_user: "whitelist_key i ''user'' = Inr (''whitelist:users:'' @ i)"
  by (simp add: whitelist_key_def)

lemma whitelist_key_company: "whitelist_key i ''company'' = Inr (''whitelist:companies:'' @ i)"
  by (simp add: whitelist_key_def)

lemma scalar_one_or_none_Some: "scalar_one_or_none xs = Inr (Some x) \<Longrightarrow> xs = [x]"
  by (cases xs rule: scalar_one_or_none.cases) auto

lemma flush_user:
  "flush_all_jti_from_whitelist r i ''user'' = Inr (r(''whitelist:users:'' @ i := {}))"
  by (simp add: flush_all_jti_from_whitelist_def whitelist_key_user unlink_def)

lemma add_user:
  "add_jti_to_whitelist r i j ''user''
     = Inr (r(''whitelist:users:'' @ i := insert j (r (''whitelist:users:'' @ i))))"
  by (simp add: add_jti_to_whitelist_def whitelist_key_user sadd_def)

lemma flush_company:
  "flush_all_jti_from_whitelist r i ''company'' = Inr (r(''whitelist:companies:'' @ i := {}))"
  by (simp add: flush_all_jti_from_whitelist_def whitelist_key_company unlink_def)

lemma add_company:
  "add_jti_to_whitelist r i j ''company''
     = Inr (r(''whitelist:companies:'' @ i := insert j (r (''whitelist:companies:'' @ i))))"
  by (simp add: add_jti_to_whitelist_def whitelist_key_company sadd_def)

lemma create_access_token_jti:
  "create_access_token L token_uuid now i b = Inr (j, t) \<Longrightarrow> j = token_uuid"
  by (simp add: create_access_token_def Let_def split: option.splits)

lemma user_sign_in_whitelist:
  assumes "user_sign_in L token_uuid now data d r = (Inr new_token, r')"
  shows "\<exists>u. filter (\<lambda>u. u_email u = usi_email data) (users d) = [u]
            \<and> r' = r(''whitelist:users:'' @ u_id u := {token_uuid})"
proof (cases "scalar_one_or_none (filter (\<lambda>u. u_email u = usi_email data) (users d))")
  case (Inl e)
  with assms show ?thesis by (simp add: user_sign_in_def)
next
  case (Inr x)
  show ?thesis
  proof (cases x)
    case None
    with Inr assms show ?thesis by (simp add: user_sign_in_def)
  next
    case (Some u)
    with Inr have f: "filter (\<lambda>u. u_email u = usi_email data) (users d) = [u]"
      by (simp add: scalar_one_or_none_Some)
    show ?thesis
    proof (cases "create_access_token L token_uuid now (u_id u) False")
      case (Inl e)
      with Inr Some assms show ?thesis by (simp add: user_sign_in_def split: if_splits)
    next
      case tok: (Inr p)
      obtain j t where p: "p = (j, t)" by (cases p)
      with tok have j: "j = token_uuid" by (simp add: create_access_token_jti)
      from assms Inr Some tok p j have "r' = r(''whitelist:users:'' @ u_id u := {token_uuid})"
        by (simp add: user_sign_in_def flush_user add_user split: if_splits)
      with f show ?thesis by blast
    qed
  qed
qed


lemma get_company_by_email_Some:
  assumes "get_company_by_email L email d = Inr (Some model)"
  shows "\<exists>c. filter (\<lambda>c. c_email c = email) (companies d) = [c] \<and> cdto_id model = c_id c"
proof (cases "scalar_one_or_none (filter (\<lambda>c. c_email c = email) (companies d))")
  case (Inl e)
  with assms show ?thesis by (simp add: get_company_by_email_def)
next
  case (Inr x)
  show ?thesis
  proof (cases x)
    case None
    with Inr assms show ?thesis by (simp add: get_company_by_email_def)
  next
    case (Some c)
    with Inr have f: "filter (\<lambda>c. c_email c = email) (companies d) = [c]"
      by (simp add: scalar_one_or_none_Some)
    from assms Inr Some have "CompanyDTO_model_validate L c = Inr model"
      by (simp add: get_company_by_email_def split: sum.splits)
    then have "cdto_id model = c_id c"
      by (auto simp: CompanyDTO_model_validate_def split: sum.splits if_splits)
    with f show ?thesis by blast
  qed
qed

lemma company_sign_in_whitelist:
  assumes "company_sign_in L token_uuid now company d r = (Inr new_token, r')"
  shows "\<exists>c. filter (\<lambda>c. c_email c = csi_email company) (companies d) = [c]
            \<and> r' = r(''whitelist:companies:'' @ c_id c := {token_uuid})"
proof (cases "get_company_by_email L (csi_email company) d")
  case (Inl e)
  with assms show ?thesis by (simp add: company_sign_in_def)
next
  case (Inr x)
  show ?thesis
  proof (cases x)
    case None
    with Inr assms show ?thesis by (simp add: company_sign_in_def)
  next
    case (Some model)
    with Inr obtain c where
      f: "filter (\<lambda>c. c_email c = csi_email company) (companies d) = [c]"
      and i: "cdto_id model = c_id c"
      using get_company_by_email_Some by blast
    show ?thesis
    proof (cases "create_access_token L token_uuid now (c_id c) False")
      case (Inl e)
      with Inr Some assms i show ?thesis
        by (simp add: company_sign_in_def flush_company split: if_splits)
    next
      case tok: (Inr p)
      obtain j t where p: "p = (j, t)" by (cases p)
      with tok have j: "j = token_uuid" by (simp add: create_access_token_jti)
      from assms Inr Some tok p j i
      have "r' = r(''whitelist:companies:'' @ c_id c := {token_uuid})"
        by (simp add: company_sign_in_def flush_company add_company split: if_splits)
      with f show ?thesis by blast
    qed
  qed
qed

lemma user_bearer_not_whitelisted:
  assumes "jwt_decode L old = Some td" "td_jti td \<notin> r (''whitelist:users:'' @ td_id td)"
  shows "AccessTokenUserBearer L r (Some old) = Inl (HTTPException HTTP_403_FORBIDDEN)"
  using assms
  by (simp add: AccessTokenUserBearer_def TokenBearer_call_def
      AccessTokenUserBearer_verify_token_data_def check_jti_in_whitelist_def
      whitelist_key_user sismember_def)

lemma company_bearer_not_whitelisted:
  assumes "jwt_decode L old = Some td" "td_jti td \<notin> r (''whitelist:companies:'' @ td_id td)"
  shows "AccessTokenCompanyBearer L r (Some old) = Inl (HTTPException HTTP_403_FORBIDDEN)"
  using assms
  by (simp add: AccessTokenCompanyBearer_def TokenBearer_call_def
      AccessTokenCompanyBearer_verify_token_data_def check_jti_in_whitelist_def
      whitelist_key_company sismember_def)

text \<open>
  Claim C1.  After a successful sign-in of a user or of a company the whitelist set of that
  principal holds the identifier of the new token and nothing else, so a token of that
  principal with any other identifier, whatever its expiry and although it decodes, is
  refused with status 403 by the bearer check of that kind of principal.  The new
  identifier is the value \<open>uuid4\<close> returns, \<open>token_uuid\<close>; an older token is one whose
  identifier differs from it.
\<close>

theorem sign_in_revokes_previous_tokens:
  "(user_sign_in L token_uuid now data d r = (Inr new_token, r') \<longrightarrow>
      (\<exists>u \<in> set (users d). u_email u = usi_email data
         \<and> r' (''whitelist:users:'' @ u_id u) = {token_uuid}
         \<and> (\<forall>old td. jwt_decode L old = Some td \<and> td_id td = u_id u \<and> td_jti td \<noteq> token_uuid
               \<longrightarrow> AccessTokenUserBearer L r' (Some old) = Inl (HTTPException HTTP_403_FORBIDDEN))))
   \<and> (company_sign_in L token_uuid now company d r = (Inr new_token, r') \<longrightarrow>
      (\<exists>c \<in> set (companies d). c_email c = csi_email company
         \<and> r' (''whitelist:companies:'' @ c_id c) = {token_uuid}
         \<and> (\<forall>old td. jwt_decode L old = Some td \<and> td_id td = c_id c \<and> td_jti td \<noteq> token_uuid
               \<longrightarrow> AccessTokenCompanyBearer L r' (Some old) = Inl (HTTPException HTTP_403_FORBIDDEN))))"
proof (intro conjI impI)
  assume a: "user_sign_in L token_uuid now data d r = (Inr new_token, r')"
  from user_sign_in_whitelist[OF a] obtain u where
    f: "filter (\<lambda>u. u_email u = usi_email data) (users d) = [u]"
    and r': "r' = r(''whitelist:users:'' @ u_id u := {token_uuid})" by blast
  from f have "u \<in> set (filter (\<lambda>u. u_email u = usi_email data) (users d))" by simp
  then have mem: "u \<in> set (users d)" and em: "u_email u = usi_email data" by auto
  have wl: "r' (''whitelist:users:'' @ u_id u) = {token_uuid}" by (simp add: r')
  have old: "\<forall>old td. jwt_decode L old = Some td \<and> td_id td = u_id u \<and> td_jti td \<noteq> token_uuid
               \<longrightarrow> AccessTokenUserBearer L r' (Some old) = Inl (HTTPException HTTP_403_FORBIDDEN)"
  proof (intro allI impI)
    fix old td
    assume h: "jwt_decode L old = Some td \<and> td_id td = u_id u \<and> td_jti td \<noteq> token_uuid"
    then have "td_jti td \<notin> r' (''whitelist:users:'' @ td_id td)" using wl by simp
    with h show "AccessTokenUserBearer L r' (Some old) = Inl (HTTPException HTTP_403_FORBIDDEN)"
      by (simp add: user_bearer_not_whitelisted)
  qed
  from mem em wl old show "\<exists>u \<in> set (users d). u_email u = usi_email data
         \<and> r' (''whitelist:users:'' @ u_id u) = {token_uuid}
         \<and> (\<forall>old td. jwt_decode L old = Some td \<and> td_id td = u_id u \<and> td_jti td \<noteq> token_uuid
               \<longrightarrow> AccessTokenUserBearer L r' (Some old) = Inl (HTTPException HTTP_403_FORBIDDEN))"
    by (intro bexI[of _ u] conjI)
next
  assume a: "company_sign_in L token_uuid now company d r = (Inr new_token, r')"
  from company_sign_in_whitelist[OF a] obtain c where
    f: "filter (\<lambda>c. c_email c = csi_email company) (companies d) = [c]"
    and r': "r' = r(''whitelist:companies:'' @ c_id c := {token_uuid})" by blast
  from f have "c \<in> set (filter (\<lambda>c. c_email c = csi_email company) (companies d))" by simp
  then have mem: "c \<in> set (companies d)" and em: "c_email c = csi_email company" by auto
  have wl: "r' (''whitelist:companies:'' @ c_id c) = {token_uuid}" by (simp add: r')
  have old: "\<forall>old td. jwt_decode L old = Some td \<and> td_id td = c_id c \<and> td_jti td \<noteq> token_uuid
               \<longrightarrow> AccessTokenCompanyBearer L r' (Some old) = Inl (HTTPException HTTP_403_FORBIDDEN)"
  proof (intro allI impI)
    fix old td
    assume h: "jwt_decode L old = Some td \<and> td_id td = c_id c \<and> td_jti td \<noteq> token_uuid"
    then have "td_jti td \<notin> r' (''whitelist:companies:'' @ td_id td)" using wl by simp
    with h show "AccessTokenCompanyBearer L r' (Some old) = Inl (HTTPException HTTP_403_FORBIDDEN)"
      by (simp add: company_bearer_not_whitelisted)
  qed
  from mem em wl old show "\<exists>c \<in> set (companies d). c_email c = csi_email company
         \<and> r' (''whitelist:companies:'' @ c_id c) = {token_uuid}
         \<and> (\<forall>old td. jwt_decode L old = Some td \<and> td_id td = c_id c \<and> td_jti td \<noteq> token_uuid
               \<longrightarrow> AccessTokenCompanyBearer L r' (Some old) = Inl (HTTPException HTTP_403_FORBIDDEN))"
    by (intro bexI[of _ c] conjI)
qed


lemma sample_decode_slash:
  "jwt_decode sample_libs ''u1/j-old''
     = Some \<lparr>td_id = ''u1'', td_jti = ''j-old'', td_exp = 86400, td_refresh = False\<rparr>"
  "jwt_decode sample_libs ''c1/j-old''
     = Some \<lparr>td_id = ''c1'', td_jti = ''j-old'', td_exp = 86400, td_refresh = False\<rparr>"
  by (simp_all add: sample_libs_def sample_decode_def)



theorem sign_in_revokes_previous_tokens_witness:
  "user_sign_in sample_libs ''j-new'' 0 \<lparr>usi_email = ''ann@example.com'', usi_password = ''pw''\<rparr>
       sample_db sample_redis
     = (Inr ''u1/j-new'', sample_redis(''whitelist:users:u1'' := {''j-new''}))
   \<and> AccessTokenUserBearer sample_libs sample_redis (Some ''u1/j-old'') = Inr ''u1/j-old''
   \<and> AccessTokenUserBearer sample_libs (sample_redis(''whitelist:users:u1'' := {''j-new''}))
        (Some ''u1/j-old'') = Inl (HTTPException HTTP_403_FORBIDDEN)
   \<and> company_sign_in sample_libs ''j-new'' 0 \<lparr>csi_email = ''acme@example.com'', csi_password = ''pw''\<rparr>
       sample_db sample_redis
     = (Inr ''c1/j-new'', sample_redis(''whitelist:companies:c1'' := {''j-new''}))
   \<and> AccessTokenCompanyBearer sample_libs sample_redis (Some ''c1/j-old'') = Inr ''c1/j-old''
   \<and> AccessTokenCompanyBearer sample_libs (sample_redis(''whitelist:companies:c1'' := {''j-new''}))
        (Some ''c1/j-old'') = Inl (HTTPException HTTP_403_FORBIDDEN)"
proof -
  let ?ru = "sample_redis(''whitelist:users:u1'' := {''j-new''})"
  let ?rc = "sample_redis(''whitelist:companies:c1'' := {''j-new''})"
  let ?tu = "\<lparr>td_id = ''u1'', td_jti = ''j-old'', td_exp = 86400, td_refresh = False\<rparr>"
  let ?tc = "\<lparr>td_id = ''c1'', td_jti = ''j-old'', td_exp = 86400, td_refresh = False\<rparr>"
  have hu: "user_sign_in sample_libs ''j-new'' 0
              \<lparr>usi_email = ''ann@example.com'', usi_password = ''pw''\<rparr> sample_db sample_redis
            = (Inr ''u1/j-new'', ?ru)"
    by (simp add: user_sign_in_def sample_db_def sample_libs_def create_access_token_def
        flush_all_jti_from_whitelist_def add_jti_to_whitelist_def whitelist_key_def
        sadd_def unlink_def)
  have hc: "company_sign_in sample_libs ''j-new'' 0
              \<lparr>csi_email = ''acme@example.com'', csi_password = ''pw''\<rparr> sample_db sample_redis
            = (Inr ''c1/j-new'', ?rc)"
    by (simp add: company_sign_in_def get_company_by_email_def CompanyDTO_model_validate_def
        val_email_def len_between_def sample_db_def sample_libs_def create_access_token_def
        flush_all_jti_from_whitelist_def add_jti_to_whitelist_def whitelist_key_def
        sadd_def unlink_def)
  have bu: "AccessTokenUserBearer sample_libs sample_redis (Some ''u1/j-old'') = Inr ''u1/j-old''"
    by (simp add: AccessTokenUserBearer_def TokenBearer_call_def sample_decode_slash
        AccessTokenUserBearer_verify_token_data_def check_jti_in_whitelist_def
        whitelist_key_def sismember_def sample_redis_def)
  have bc: "AccessTokenCompanyBearer sample_libs sample_redis (Some ''c1/j-old'') = Inr ''c1/j-old''"
    by (simp add: AccessTokenCompanyBearer_def TokenBearer_call_def sample_decode_slash
        AccessTokenCompanyBearer_verify_token_data_def check_jti_in_whitelist_def
        whitelist_key_def sismember_def sample_redis_def)
  note sign_in_revokes_previous_tokens[THEN conjunct1, rule_format, OF hu]
  then obtain u where u: "u \<in> set (users sample_db)"
    and oldu: "\<forall>old td. jwt_decode sample_libs old = Some td \<and> td_id td = u_id u
                 \<and> td_jti td \<noteq> ''j-new''
               \<longrightarrow> AccessTokenUserBearer sample_libs ?ru (Some old)
                     = Inl (HTTPException HTTP_403_FORBIDDEN)"
    by (elim bexE conjE)
  from u have iu: "u_id u = ''u1''" by (simp add: sample_db_def)
  have "jwt_decode sample_libs ''u1/j-old'' = Some ?tu \<and> td_id ?tu = u_id u
          \<and> td_jti ?tu \<noteq> ''j-new''"
    by (simp add: sample_decode_slash iu)
  then have fu: "AccessTokenUserBearer sample_libs ?ru (Some ''u1/j-old'')
                   = Inl (HTTPException HTTP_403_FORBIDDEN)"
    by (rule oldu[rule_format])
  note sign_in_revokes_previous_tokens[THEN conjunct2, rule_format, OF hc]
  then obtain c where c: "c \<in> set (companies sample_db)"
    and ec: "c_email c = csi_email \<lparr>csi_email = ''acme@example.com'', csi_password = ''pw''\<rparr>"
    and oldc: "\<forall>old td. jwt_decode sample_libs old = Some td \<and> td_id td = c_id c
                 \<and> td_jti td \<noteq> ''j-new''
               \<longrightarrow> AccessTokenCompanyBearer sample_libs ?rc (Some old)
                     = Inl (HTTPException HTTP_403_FORBIDDEN)"
    by (elim bexE conjE)
  from c ec have ic: "c_id c = ''c1''" by (auto simp: sample_db_def)
  have "jwt_decode sample_libs ''c1/j-old'' = Some ?tc \<and> td_id ?tc = c_id c
          \<and> td_jti ?tc \<noteq> ''j-new''"
    by (simp add: sample_decode_slash ic)
  then have fc: "AccessTokenCompanyBearer sample_libs ?rc (Some ''c1/j-old'')
                   = Inl (HTTPException HTTP_403_FORBIDDEN)"
    by (rule oldc[rule_format])
  from hu bu fu hc bc fc show ?thesis by (intro conjI)
qed

text \<open>
  Claim C6.  A token that does not decode, or whose payload is marked \<open>refresh\<close>, is
  refused with status 403 by each of the three access-token bearers and so by every
  route behind them, whatever the whitelist holds; the stores stay as they were.
\<close>

theorem refresh_token_rejected:
  assumes "\<forall>td. jwt_decode L tok = Some td \<longrightarrow> td_refresh td"
  shows "AccessTokenBearer L (Some tok) = Inl (HTTPException HTTP_403_FORBIDDEN)
       \<and> AccessTokenCompanyBearer L r (Some tok) = Inl (HTTPException HTTP_403_FORBIDDEN)
       \<and> AccessTokenUserBearer L r (Some tok) = Inl (HTTPException HTTP_403_FORBIDDEN)
       \<and> delete_comment L r (Some tok) ident comment_id d = (Inl (HTTPException HTTP_403_FORBIDDEN), d)
       \<and> business_create_promo L st new_id r (Some tok) raw d = (Inl (HTTPException HTTP_403_FORBIDDEN), d)
       \<and> business_get_promo L r (Some tok) ident d = Inl (HTTPException HTTP_403_FORBIDDEN)
       \<and> business_update_promo L st r (Some tok) patch ident d = (Inl (HTTPException HTTP_403_FORBIDDEN), d)"
proof -
  have a: "AccessTokenBearer L (Some tok) = Inl (HTTPException HTTP_403_FORBIDDEN)"
    using assms
    by (auto simp: AccessTokenBearer_def TokenBearer_call_def
        AccessTokenBearer_verify_token_data_def split: option.splits)
  have c: "AccessTokenCompanyBearer L r (Some tok) = Inl (HTTPException HTTP_403_FORBIDDEN)"
    using assms
    by (auto simp: AccessTokenCompanyBearer_def TokenBearer_call_def
        AccessTokenCompanyBearer_verify_token_data_def split: option.splits)
  have u: "AccessTokenUserBearer L r (Some tok) = Inl (HTTPException HTTP_403_FORBIDDEN)"
    using assms
    by (auto simp: AccessTokenUserBearer_def TokenBearer_call_def
        AccessTokenUserBearer_verify_token_data_def split: option.splits)
  show ?thesis
    by (simp add: a c u delete_comment_def business_create_promo_def business_get_promo_def
        business_update_promo_def)
qed

lemma sample_decode_refresh:
  "jwt_decode sample_libs ''refresh-token''
     = Some \<lparr>td_id = ''u1'', td_jti = ''j-old'', td_exp = 86400, td_refresh = True\<rparr>"
  by (simp add: sample_libs_def sample_decode_def)

theorem refresh_token_rejected_witness:
  "jwt_decode sample_libs ''refresh-token''
     = Some \<lparr>td_id = ''u1'', td_jti = ''j-old'', td_exp = 86400, td_refresh = True\<rparr>
   \<and> sismember sample_redis ''whitelist:users:u1'' ''j-old''
   \<and> AccessTokenBearer sample_libs (Some ''refresh-token'') = Inl (HTTPException HTTP_403_FORBIDDEN)
   \<and> AccessTokenUserBearer sample_libs sample_redis (Some ''refresh-token'')
       = Inl (HTTPException HTTP_403_FORBIDDEN)
   \<and> AccessTokenCompanyBearer sample_libs sample_redis (Some ''refresh-token'')
       = Inl (HTTPException HTTP_403_FORBIDDEN)"
proof -
  have h: "\<forall>td. jwt_decode sample_libs ''refresh-token'' = Some td \<longrightarrow> td_refresh td"
    by (simp add: sample_decode_refresh)
  have m: "sismember sample_redis ''whitelist:users:u1'' ''j-old''"
    by (simp add: sismember_def sample_redis_def)
  from refresh_token_rejected[OF h, of sample_redis] sample_decode_refresh m
  show ?thesis by (intro conjI) simp_all
qed

section \<open>Validators, creation, owner-scoped reads and likes\<close>

lemma val_password_Inr: "val_password L v = Inr v"
  by (simp add: val_password_def Let_def)

text \<open>
  Claim C10.  \<open>val_password\<close> returns its argument for every string, whatever the pattern
  and the length, and the error of the validation of a sign-in or sign-up body, of a user
  or of a company, is the same for any two passwords: no body is refused for its password.
\<close>

theorem val_password_accepts_every_string:
  "val_password L v = Inr v
   \<and> (UserSignIn_validate L (si\<lparr>usi_password := p\<rparr>) = Inl e)
       = (UserSignIn_validate L (si\<lparr>usi_password := q\<rparr>) = Inl e)
   \<and> (CompanySignInRequest_validate L (ci\<lparr>csi_password := p\<rparr>) = Inl e)
       = (CompanySignInRequest_validate L (ci\<lparr>csi_password := q\<rparr>) = Inl e)
   \<and> (CompanySignUpRequest_validate L (cu\<lparr>csu_password := p\<rparr>) = Inl e)
       = (CompanySignUpRequest_validate L (cu\<lparr>csu_password := q\<rparr>) = Inl e)
   \<and> (UserRegister_validate L (ur\<lparr>ur_password := p\<rparr>) = Inl e)
       = (UserRegister_validate L (ur\<lparr>ur_password := q\<rparr>) = Inl e)"
proof (intro conjI)
  show "val_password L v = Inr v" by (rule val_password_Inr)
  show "(UserSignIn_validate L (si\<lparr>usi_password := p\<rparr>) = Inl e)
       = (UserSignIn_validate L (si\<lparr>usi_password := q\<rparr>) = Inl e)"
    by (simp add: UserSignIn_validate_def val_password_Inr split: sum.splits)
  show "(CompanySignInRequest_validate L (ci\<lparr>csi_password := p\<rparr>) = Inl e)
       = (CompanySignInRequest_validate L (ci\<lparr>csi_password := q\<rparr>) = Inl e)"
    by (simp add: CompanySignInRequest_validate_def val_password_Inr split: sum.splits)
  show "(CompanySignUpRequest_validate L (cu\<lparr>csu_password := p\<rparr>) = Inl e)
       = (CompanySignUpRequest_validate L (cu\<lparr>csu_password := q\<rparr>) = Inl e)"
    by (simp add: CompanySignUpRequest_validate_def val_password_Inr split: sum.splits)
  show "(UserRegister_validate L (ur\<lparr>ur_password := p\<rparr>) = Inl e)
       = (UserRegister_validate L (ur\<lparr>ur_password := q\<rparr>) = Inl e)"
    by (auto simp: UserRegister_validate_def val_password_Inr split: sum.splits option.splits)
qed

theorem val_password_accepts_every_string_witness:
  "password_pattern_match sample_libs '''' = False
   \<and> val_password sample_libs '''' = Inr ''''
   \<and> UserSignIn_validate sample_libs \<lparr>usi_email = ''ann@example.com'', usi_password = ''''\<rparr>
       = Inr \<lparr>usi_email = ''ann@example.com'', usi_password = ''''\<rparr>"
proof -
  have a: "password_pattern_match sample_libs '''' = False" by (simp add: sample_libs_def)
  have b: "val_password sample_libs '''' = Inr ''''"
    using val_password_accepts_every_string[of sample_libs "''''"] by (rule conjunct1)
  have e: "val_email sample_libs ''ann@example.com'' = Inr ''ann@example.com''"
    by (simp add: val_email_def sample_libs_def)
  have c: "UserSignIn_validate sample_libs \<lparr>usi_email = ''ann@example.com'', usi_password = ''''\<rparr>
       = Inr \<lparr>usi_email = ''ann@example.com'', usi_password = ''''\<rparr>"
    by (simp add: UserSignIn_validate_def b e)
  from a b c show ?thesis by (intro conjI)
qed

text \<open>
  Claim C9.  When the body of a create request has no \<open>image_url\<close>, the row that a
  successful \<open>create_promo\<close> stores has the four-character string \<open>None\<close> as its
  \<open>image_url\<close>, not the null value.
\<close>

theorem create_promo_image_url_None_string:
  assumes "req_image_url data = None"
    and "create_promo st new_id data company_id d = (Inr promo_id, d')"
  shows "\<exists>model. promos d' promo_id = Some model \<and> p_image_url model = Some ''None''"
  using assms
  by (auto simp: create_promo_def Let_def create_promo_model_def str_of_optional_def
      split: if_splits)


theorem create_promo_image_url_None_string_witness:
  "req_image_url sample_request = None
   \<and> fst (create_promo sample_store ''p2'' sample_request ''c1'' sample_db) = Inr ''p2''
   \<and> map_option p_image_url
        (promos (snd (create_promo sample_store ''p2'' sample_request ''c1'' sample_db)) ''p2'')
       = Some (Some ''None'')"
proof -
  obtain r d' where c: "create_promo sample_store ''p2'' sample_request ''c1'' sample_db = (r, d')"
    by (cases "create_promo sample_store ''p2'' sample_request ''c1'' sample_db")
  have n: "req_image_url sample_request = None" by (simp add: sample_request_def)
  have r: "r = Inr ''p2''"
    using c by (simp add: create_promo_def Let_def create_promo_model_def sample_request_def
        sample_store_def sample_db_def company_row_exists_def promo_columns_accepted_def
        column_widths_ok_def str_of_optional_def)
  from create_promo_image_url_None_string[OF n c[unfolded r]]
  obtain model where "promos d' ''p2'' = Some model" "p_image_url model = Some ''None''"
    by (elim exE conjE)
  then have "map_option p_image_url (promos d' ''p2'') = Some (Some ''None'')" by simp
  with n r c show ?thesis by simp
qed

lemma PromoDTO_of_model_fields:
  assumes "PromoDTO_of_model L promo_id model = Inr dto"
  shows "dto_id dto = promo_id \<and> dto_company_id dto = p_company_id model
       \<and> dto_description dto = p_description model
       \<and> dto_image_url dto = p_image_url model
       \<and> t_age_from (dto_target dto) = Given (p_age_from model)
       \<and> t_age_until (dto_target dto) = Given (p_age_until model)
       \<and> t_country (dto_target dto) = Given (map_option (str_upper L) (p_country model))
       \<and> t_categories (dto_target dto) = Given (Some (p_categories model))
       \<and> dto_max_count dto = p_max_count model
       \<and> dto_active_from dto = p_active_from model
       \<and> dto_active_until dto = p_active_until model
       \<and> dto_mode dto = p_mode model
       \<and> dto_active dto = p_active model
       \<and> dto_like_count dto = p_like_count model
       \<and> dto_used_count dto = p_used_count model
       \<and> dto_promo_common dto = p_promo_common model
       \<and> dto_promo_unique dto
           = (if p_unique_promos model \<noteq> [] then Some (map promocode (p_unique_promos model))
              else None)"
proof (cases "p_country model")
  case None
  with assms show ?thesis
    by (simp add: PromoDTO_of_model_def Target_validate_def convert_country_def)
next
  case (Some c)
  with assms show ?thesis
    by (auto simp: PromoDTO_of_model_def Target_validate_def convert_country_def Let_def
        split: if_splits)
qed

text \<open>
  Claim C5.  \<open>get_company_promo_by_id\<close> raises 404 when no promo has the given id and 403
  when the promo belongs to another company.  For the owner it returns the response object
  built from the stored row, whenever the response schema accepts that row; its fields are
  the stored ones, the country as \<open>Target\<close> holds it, in upper case.
\<close>

theorem get_company_promo_by_id_cases:
  "(promos d promo_id = None \<longrightarrow>
      get_company_promo_by_id L company_id promo_id d = Inl (HTTPException HTTP_404_NOT_FOUND))
   \<and> (promos d promo_id = Some model \<and> p_company_id model \<noteq> company_id \<longrightarrow>
      get_company_promo_by_id L company_id promo_id d = Inl (HTTPException HTTP_403_FORBIDDEN))
   \<and> (promos d promo_id = Some model \<and> p_company_id model = company_id
       \<and> PromoDTO_of_model L promo_id model = Inr dto \<longrightarrow>
      get_company_promo_by_id L company_id promo_id d = Inr dto
      \<and> dto_id dto = promo_id \<and> dto_company_id dto = company_id
      \<and> dto_description dto = p_description model
      \<and> dto_image_url dto = p_image_url model
      \<and> t_age_from (dto_target dto) = Given (p_age_from model)
      \<and> t_age_until (dto_target dto) = Given (p_age_until model)
      \<and> t_country (dto_target dto) = Given (map_option (str_upper L) (p_country model))
      \<and> t_categories (dto_target dto) = Given (Some (p_categories model))
      \<and> dto_max_count dto = p_max_count model
      \<and> dto_active_from dto = p_active_from model
      \<and> dto_active_until dto = p_active_until model
      \<and> dto_mode dto = p_mode model
      \<and> dto_active dto = p_active model
      \<and> dto_like_count dto = p_like_count model
      \<and> dto_used_count dto = p_used_count model
      \<and> dto_promo_common dto = p_promo_common model
      \<and> dto_promo_unique dto
          = (if p_unique_promos model \<noteq> [] then Some (map promocode (p_unique_promos model))
             else None))"
proof -
  have nf: "promos d promo_id = None \<longrightarrow>
      get_company_promo_by_id L company_id promo_id d = Inl (HTTPException HTTP_404_NOT_FOUND)"
    by (simp add: get_company_promo_by_id_def)
  have fb: "promos d promo_id = Some model \<and> p_company_id model \<noteq> company_id \<longrightarrow>
      get_company_promo_by_id L company_id promo_id d = Inl (HTTPException HTTP_403_FORBIDDEN)"
    by (simp add: get_company_promo_by_id_def)
  have ok: "get_company_promo_by_id L company_id promo_id d = Inr dto
      \<and> dto_id dto = promo_id \<and> dto_company_id dto = company_id
      \<and> dto_description dto = p_description model
      \<and> dto_image_url dto = p_image_url model
      \<and> t_age_from (dto_target dto) = Given (p_age_from model)
      \<and> t_age_until (dto_target dto) = Given (p_age_until model)
      \<and> t_country (dto_target dto) = Given (map_option (str_upper L) (p_country model))
      \<and> t_categories (dto_target dto) = Given (Some (p_categories model))
      \<and> dto_max_count dto = p_max_count model
      \<and> dto_active_from dto = p_active_from model
      \<and> dto_active_until dto = p_active_until model
      \<and> dto_mode dto = p_mode model
      \<and> dto_active dto = p_active model
      \<and> dto_like_count dto = p_like_count model
      \<and> dto_used_count dto = p_used_count model
      \<and> dto_promo_common dto = p_promo_common model
      \<and> dto_promo_unique dto
          = (if p_unique_promos model \<noteq> [] then Some (map promocode (p_unique_promos model))
             else None)"
    if a: "promos d promo_id = Some model \<and> p_company_id model = company_id
       \<and> PromoDTO_of_model L promo_id model = Inr dto"
  proof -
    from a have g: "get_company_promo_by_id L company_id promo_id d = Inr dto"
      by (simp add: get_company_promo_by_id_def)
    from a have f: "PromoDTO_of_model L promo_id model = Inr dto" by simp
    from a have o: "p_company_id model = company_id" by simp
    from g PromoDTO_of_model_fields[OF f] o show ?thesis by simp
  qed
  show ?thesis by (rule conjI[OF nf conjI[OF fb impI[OF ok]]])
qed


lemma sample_promo_dto:
  "PromoDTO_of_model sample_libs ''p1'' sample_promo =
     Inr \<lparr>dto_id = ''p1'', dto_company_id = ''c1'', dto_description = ''Ten percent off'',
          dto_image_url = Some ''None'',
          dto_target = \<lparr>t_age_from = Given (Some 5), t_age_until = Given (Some 30),
                         t_country = Given (Some ''RU''),
                         t_categories = Given (Some [''food''])\<rparr>,
          dto_max_count = 10, dto_active_from = Some 738886, dto_active_until = Some 739038,
          dto_mode = COMMON, dto_active = True, dto_like_count = 0, dto_used_count = 0,
          dto_promo_common = Some ''SALE10'', dto_promo_unique = None\<rparr>"
  by (simp add: PromoDTO_of_model_def Target_validate_def convert_country_def sample_promo_def
      sample_libs_def age_field_ok_def categories_field_ok_def len_between_def
      image_url_field_ok_def val_httpurl_def max_count_field_ok_def promo_common_field_ok_def
      promo_unique_field_ok_def)

theorem get_company_promo_by_id_cases_witness:
  "get_company_promo_by_id sample_libs ''c1'' ''xyz'' sample_db
     = Inl (HTTPException HTTP_404_NOT_FOUND)
   \<and> get_company_promo_by_id sample_libs ''c2'' ''p1'' sample_db
     = Inl (HTTPException HTTP_403_FORBIDDEN)
   \<and> get_company_promo_by_id sample_libs ''c1'' ''p1'' sample_db =
     Inr \<lparr>dto_id = ''p1'', dto_company_id = ''c1'', dto_description = ''Ten percent off'',
          dto_image_url = Some ''None'',
          dto_target = \<lparr>t_age_from = Given (Some 5), t_age_until = Given (Some 30),
                         t_country = Given (Some ''RU''),
                         t_categories = Given (Some [''food''])\<rparr>,
          dto_max_count = 10, dto_active_from = Some 738886, dto_active_until = Some 739038,
          dto_mode = COMMON, dto_active = True, dto_like_count = 0, dto_used_count = 0,
          dto_promo_common = Some ''SALE10'', dto_promo_unique = None\<rparr>"
proof -
  have n: "promos sample_db ''xyz'' = None" by (simp add: sample_db_def)
  have f: "promos sample_db ''p1'' = Some sample_promo \<and> p_company_id sample_promo \<noteq> ''c2''"
    by (simp add: sample_db_def sample_promo_def)
  have o: "promos sample_db ''p1'' = Some sample_promo \<and> p_company_id sample_promo = ''c1''"
    by (simp add: sample_db_def sample_promo_def)
  note a = get_company_promo_by_id_cases[where d = sample_db and promo_id = "''xyz''"
      and L = sample_libs and company_id = "''c1''", THEN conjunct1, rule_format, OF n]
  note b = get_company_promo_by_id_cases[where d = sample_db and promo_id = "''p1''"
      and L = sample_libs and company_id = "''c2''" and model = sample_promo,
      THEN conjunct2, THEN conjunct1, rule_format, OF f]
  note c = get_company_promo_by_id_cases[where d = sample_db and promo_id = "''p1''"
      and L = sample_libs and company_id = "''c1''" and model = sample_promo,
      THEN conjunct2, THEN conjunct2, rule_format, OF conjI[OF o[THEN conjunct1]
        conjI[OF o[THEN conjunct2] sample_promo_dto]], THEN conjunct1]
  from a b c show ?thesis by (intro conjI)
qed

lemma like_promo_unknown_user:
  assumes "promos d promo_id = Some promo_orm"
    and "users_promos d (user_id, promo_id) = None"
    and "\<not> user_row_exists d user_id"
  shows "like_promo user_id promo_id d = (Inl StoreError, d)"
  using assms by (simp add: like_promo_def Let_def)

lemma like_promo_result:
  assumes "promos d promo_id = Some promo_orm" and "user_row_exists d user_id"
  shows "like_promo user_id promo_id d =
     (Inr (),
      case users_promos d (user_id, promo_id) of
        None \<Rightarrow>
          d\<lparr>users_promos := (users_promos d)((user_id, promo_id) \<mapsto>
                                \<lparr>pu_activated = False, pu_liked = True\<rparr>),
            promos := (promos d)(promo_id \<mapsto>
                                promo_orm\<lparr>p_like_count := p_like_count promo_orm + 1\<rparr>)\<rparr>
      | Some row \<Rightarrow>
          if pu_liked row then d
          else d\<lparr>users_promos := (users_promos d)((user_id, promo_id) \<mapsto> row\<lparr>pu_liked := True\<rparr>),
                 promos := (promos d)(promo_id \<mapsto>
                                promo_orm\<lparr>p_like_count := p_like_count promo_orm + 1\<rparr>)\<rparr>)"
  using assms by (simp add: like_promo_def Let_def split: option.splits)

text \<open>
  Claim C7.  For a user that the table of users holds and an existing promo, \<open>like_promo\<close>
  succeeds, and a second call on the state it leaves succeeds and changes nothing.  The
  first call creates the engagement row with \<open>liked\<close> set and adds one to \<open>like_count\<close>
  when there was no row, sets \<open>liked\<close> and adds one when the row was not liked, and
  changes nothing when it was.
\<close>

theorem like_promo_idempotent:
  assumes "promos d promo_id = Some promo_orm" and "user_row_exists d user_id"
  shows "\<exists>d1. like_promo user_id promo_id d = (Inr (), d1)
          \<and> like_promo user_id promo_id d1 = (Inr (), d1)
          \<and> (users_promos d (user_id, promo_id) = None \<longrightarrow>
               users_promos d1 (user_id, promo_id) = Some \<lparr>pu_activated = False, pu_liked = True\<rparr>
               \<and> map_option p_like_count (promos d1 promo_id) = Some (p_like_count promo_orm + 1))
          \<and> (\<forall>row. users_promos d (user_id, promo_id) = Some row \<and> \<not> pu_liked row \<longrightarrow>
               users_promos d1 (user_id, promo_id) = Some (row\<lparr>pu_liked := True\<rparr>)
               \<and> map_option p_like_count (promos d1 promo_id) = Some (p_like_count promo_orm + 1))
          \<and> (\<forall>row. users_promos d (user_id, promo_id) = Some row \<and> pu_liked row \<longrightarrow> d1 = d)"
proof (cases "users_promos d (user_id, promo_id)")
  case None
  let ?d1 = "d\<lparr>users_promos := (users_promos d)((user_id, promo_id) \<mapsto>
                                \<lparr>pu_activated = False, pu_liked = True\<rparr>),
            promos := (promos d)(promo_id \<mapsto>
                                promo_orm\<lparr>p_like_count := p_like_count promo_orm + 1\<rparr>)\<rparr>"
  have 1: "like_promo user_id promo_id d = (Inr (), ?d1)"
    using None by (simp add: like_promo_result[OF assms])
  have p: "promos ?d1 promo_id = Some (promo_orm\<lparr>p_like_count := p_like_count promo_orm + 1\<rparr>)"
    by simp
  have ue: "user_row_exists ?d1 user_id"
    using assms(2) by (simp add: user_row_exists_def)
  have 2: "like_promo user_id promo_id ?d1 = (Inr (), ?d1)"
    by (simp add: like_promo_result[OF p ue])
  from 1 2 None show ?thesis by (intro exI[of _ ?d1]) simp
next
  case (Some row)
  show ?thesis
  proof (cases "pu_liked row")
    case True
    have 1: "like_promo user_id promo_id d = (Inr (), d)"
      using Some True by (simp add: like_promo_result[OF assms])
    from 1 Some True show ?thesis by (intro exI[of _ d]) simp
  next
    case False
    let ?d1 = "d\<lparr>users_promos := (users_promos d)((user_id, promo_id) \<mapsto> row\<lparr>pu_liked := True\<rparr>),
                 promos := (promos d)(promo_id \<mapsto>
                                promo_orm\<lparr>p_like_count := p_like_count promo_orm + 1\<rparr>)\<rparr>"
    have 1: "like_promo user_id promo_id d = (Inr (), ?d1)"
      using Some False by (simp add: like_promo_result[OF assms])
    have p: "promos ?d1 promo_id = Some (promo_orm\<lparr>p_like_count := p_like_count promo_orm + 1\<rparr>)"
      by simp
    have ue: "user_row_exists ?d1 user_id"
      using assms(2) by (simp add: user_row_exists_def)
    have 2: "like_promo user_id promo_id ?d1 = (Inr (), ?d1)"
      by (simp add: like_promo_result[OF p ue])
    from 1 2 Some False show ?thesis by (intro exI[of _ ?d1]) simp
  qed
qed


theorem like_promo_idempotent_witness:
  "fst (like_promo ''u1'' ''p1'' sample_db) = Inr ()
   \<and> like_promo ''u1'' ''p1'' (snd (like_promo ''u1'' ''p1'' sample_db))
       = (Inr (), snd (like_promo ''u1'' ''p1'' sample_db))
   \<and> users_promos (snd (like_promo ''u1'' ''p1'' sample_db)) (''u1'', ''p1'')
       = Some \<lparr>pu_activated = False, pu_liked = True\<rparr>
   \<and> map_option p_like_count (promos (snd (like_promo ''u1'' ''p1'' sample_db)) ''p1'') = Some 1
   \<and> like_promo ''u1'' ''xyz'' sample_db = (Inl (HTTPException HTTP_404_NOT_FOUND), sample_db)
   \<and> like_promo ''nobody'' ''p1'' sample_db = (Inl StoreError, sample_db)"
proof -
  have s: "promos sample_db ''p1'' = Some sample_promo" by (simp add: sample_db_def)
  have ux: "user_row_exists sample_db ''u1''" by (simp add: user_row_exists_def sample_db_def)
  have nb: "like_promo ''nobody'' ''p1'' sample_db = (Inl StoreError, sample_db)"
    by (rule like_promo_unknown_user[OF s])
       (simp_all add: user_row_exists_def sample_db_def)
  have n: "users_promos sample_db (''u1'', ''p1'') = None" by (simp add: sample_db_def)
  have c: "p_like_count sample_promo = 0" by (simp add: sample_promo_def)
  from like_promo_idempotent[OF s ux]
  obtain d1 where 1: "like_promo ''u1'' ''p1'' sample_db = (Inr (), d1)"
    and 2: "like_promo ''u1'' ''p1'' d1 = (Inr (), d1)"
    and 3: "users_promos sample_db (''u1'', ''p1'') = None \<longrightarrow>
               users_promos d1 (''u1'', ''p1'') = Some \<lparr>pu_activated = False, pu_liked = True\<rparr>
               \<and> map_option p_like_count (promos d1 ''p1'') = Some (p_like_count sample_promo + 1)"
    by (elim exE conjE)
  have x: "like_promo ''u1'' ''xyz'' sample_db = (Inl (HTTPException HTTP_404_NOT_FOUND), sample_db)"
    by (simp add: like_promo_def sample_db_def)
  from 1 2 3 n c x nb show ?thesis by simp
qed

section \<open>Creation and patch invariants\<close>

lemma validate_errors:
  assumes "PromoCreateRequest_validate L raw = Inl e"
  shows "e = HTTPException HTTP_400_BAD_REQUEST \<or> e = ValidationError"
proof (cases "Target_option_validate L (req_target raw)")
  case (Inl e')
  with assms have "e' = e" by (simp add: PromoCreateRequest_validate_def)
  with Inl show ?thesis
    by (auto simp: Target_option_validate_def Target_validate_def convert_country_def
        split: option.splits fld.splits sum.splits if_splits)
next
  case (Inr t)
  with assms show ?thesis
    by (auto simp: PromoCreateRequest_validate_def check_promo_codes_def Let_def
        split: if_splits PromoMode.splits option.splits)
qed

lemma check_promo_codes_Inr:
  assumes "check_promo_codes self = Inr data"
  shows "data = self
       \<and> (req_mode self = COMMON \<longrightarrow>
             truthy_seq (req_promo_common self) \<and> \<not> truthy_seq (req_promo_unique self))
       \<and> (req_mode self = UNIQUE \<longrightarrow>
             req_max_count self \<noteq> 1 \<and> truthy_seq (req_promo_unique self)
             \<and> \<not> truthy_seq (req_promo_common self))
       \<and> (\<forall>f u. req_active_from self = Some f \<and> req_active_until self = Some u \<longrightarrow> f < u)"
  using assms
  by (cases "req_mode self")
     (auto simp: check_promo_codes_def Let_def split: if_splits option.splits)

lemma validate_Inr:
  assumes "PromoCreateRequest_validate L raw = Inr data"
  shows "(req_mode raw = COMMON \<longrightarrow>
             truthy_seq (req_promo_common raw) \<and> \<not> truthy_seq (req_promo_unique raw))
       \<and> (req_mode raw = UNIQUE \<longrightarrow>
             req_max_count raw \<noteq> 1 \<and> truthy_seq (req_promo_unique raw)
             \<and> \<not> truthy_seq (req_promo_common raw))
       \<and> promo_unique_field_ok (req_promo_unique raw)
       \<and> (\<forall>f u. req_active_from raw = Some f \<and> req_active_until raw = Some u \<longrightarrow> f < u)"
proof (cases "Target_option_validate L (req_target raw)")
  case (Inl e)
  with assms show ?thesis by (simp add: PromoCreateRequest_validate_def)
next
  case (Inr t)
  with assms have c: "check_promo_codes (raw\<lparr>req_target := t\<rparr>) = Inr data"
    and u: "promo_unique_field_ok (req_promo_unique raw)"
    by (simp_all add: PromoCreateRequest_validate_def split: if_splits)
  from check_promo_codes_Inr[OF c] u show ?thesis by simp
qed

lemma business_create_promo_rejects:
  assumes "PromoCreateRequest_validate L raw = Inl e"
  shows "\<exists>e'. business_create_promo L st new_id r auth_data raw d = (Inl e', d)"
  using assms by (simp add: business_create_promo_def split: sum.splits)

text \<open>
  Claim C2.  A create body is refused, with status 400 from the model validator or with the
  validation error of a field, and the route leaves the store as it was, when the mode is
  COMMON and \<open>promo_unique\<close> is a non-empty list, when the mode is UNIQUE and
  \<open>promo_common\<close> is a non-empty string, when the mode is UNIQUE and \<open>max_count\<close> is 1,
  when the mode is COMMON and \<open>promo_common\<close> is absent, and when the mode is UNIQUE and
  \<open>promo_unique\<close> is absent or has fewer than 1 or more than 5000 entries.
\<close>

theorem create_request_code_rules:
  assumes "(req_mode raw = COMMON \<and> req_promo_unique raw = Some cs \<and> cs \<noteq> [])
         \<or> (req_mode raw = UNIQUE \<and> req_promo_common raw = Some s \<and> s \<noteq> [])
         \<or> (req_mode raw = UNIQUE \<and> req_max_count raw = 1)
         \<or> (req_mode raw = COMMON \<and> req_promo_common raw = None)
         \<or> (req_mode raw = UNIQUE \<and> req_promo_unique raw = None)
         \<or> (req_mode raw = UNIQUE \<and> req_promo_unique raw = Some cs
             \<and> (length cs < 1 \<or> 5000 < length cs))"
  shows "(PromoCreateRequest_validate L raw = Inl (HTTPException HTTP_400_BAD_REQUEST)
          \<or> PromoCreateRequest_validate L raw = Inl ValidationError)
       \<and> (\<exists>e. business_create_promo L st new_id r auth_data raw d = (Inl e, d))"
proof (cases "PromoCreateRequest_validate L raw")
  case (Inl e)
  from validate_errors[OF Inl] Inl business_create_promo_rejects[OF Inl]
  show ?thesis by auto
next
  case (Inr data)
  from validate_Inr[OF Inr] assms have False
    by (auto simp: truthy_seq_def promo_unique_field_ok_def len_between_def)
  then show ?thesis ..
qed


lemma sample_request_valid:
  "PromoCreateRequest_validate sample_libs sample_request =
     Inr (sample_request\<lparr>req_target :=
            Some \<lparr>t_age_from = Given (Some 5), t_age_until = Given (Some 30),
                  t_country = Given (Some ''RU''),
                  t_categories = Given (Some [''food''])\<rparr>\<rparr>)"
  by (simp add: PromoCreateRequest_validate_def Target_option_validate_def Target_validate_def
      convert_country_def sample_request_def sample_libs_def age_field_ok_def
      categories_field_ok_def len_between_def image_url_field_ok_def max_count_field_ok_def
      promo_common_field_ok_def promo_unique_field_ok_def check_promo_codes_def truthy_seq_def)

theorem create_request_code_rules_witness:
  "req_mode (sample_request\<lparr>req_promo_unique := Some [''abc'']\<rparr>) = COMMON
   \<and> (PromoCreateRequest_validate sample_libs (sample_request\<lparr>req_promo_unique := Some [''abc'']\<rparr>)
         = Inl (HTTPException HTTP_400_BAD_REQUEST)
       \<or> PromoCreateRequest_validate sample_libs (sample_request\<lparr>req_promo_unique := Some [''abc'']\<rparr>)
         = Inl ValidationError)
   \<and> (\<exists>e. business_create_promo sample_libs sample_store ''p2'' sample_redis (Some ''c1/j-old'')
              (sample_request\<lparr>req_promo_unique := Some [''abc'']\<rparr>) sample_db = (Inl e, sample_db))
   \<and> (PromoCreateRequest_validate sample_libs
         (sample_request\<lparr>req_mode := UNIQUE, req_promo_common := None,
                          req_promo_unique := Some [''abc''], req_max_count := 1\<rparr>)
         = Inl (HTTPException HTTP_400_BAD_REQUEST)
       \<or> PromoCreateRequest_validate sample_libs
         (sample_request\<lparr>req_mode := UNIQUE, req_promo_common := None,
                          req_promo_unique := Some [''abc''], req_max_count := 1\<rparr>)
         = Inl ValidationError)
   \<and> (PromoCreateRequest_validate sample_libs
         (sample_request\<lparr>req_mode := UNIQUE, req_promo_common := None, req_promo_unique := Some []\<rparr>)
         = Inl (HTTPException HTTP_400_BAD_REQUEST)
       \<or> PromoCreateRequest_validate sample_libs
         (sample_request\<lparr>req_mode := UNIQUE, req_promo_common := None, req_promo_unique := Some []\<rparr>)
         = Inl ValidationError)
   \<and> PromoCreateRequest_validate sample_libs sample_request =
     Inr (sample_request\<lparr>req_target :=
            Some \<lparr>t_age_from = Given (Some 5), t_age_until = Given (Some 30),
                  t_country = Given (Some ''RU''),
                  t_categories = Given (Some [''food''])\<rparr>\<rparr>)"
proof -
  let ?r1 = "sample_request\<lparr>req_promo_unique := Some [''abc'']\<rparr>"
  let ?r2 = "sample_request\<lparr>req_mode := UNIQUE, req_promo_common := None,
                          req_promo_unique := Some [''abc''], req_max_count := 1\<rparr>"
  let ?r3 = "sample_request\<lparr>req_mode := UNIQUE, req_promo_common := None,
                          req_promo_unique := Some []\<rparr>"
  have m1: "req_mode ?r1 = COMMON" by (simp add: sample_request_def)
  have h1: "req_mode ?r1 = COMMON \<and> req_promo_unique ?r1 = Some [''abc''] \<and> [''abc''] \<noteq> []"
    by (simp add: sample_request_def)
  have h2: "req_mode ?r2 = UNIQUE \<and> req_max_count ?r2 = 1" by simp
  have h3: "req_mode ?r3 = UNIQUE \<and> req_promo_unique ?r3 = Some []
              \<and> (length ([]::string list) < 1 \<or> 5000 < length ([]::string list))" by simp
  note a = create_request_code_rules[where raw = ?r1 and cs = "[''abc'']" and L = sample_libs
      and st = sample_store and new_id = "''p2''" and r = sample_redis
      and auth_data = "Some ''c1/j-old''" and d = sample_db, OF disjI1, OF h1]
  note b = create_request_code_rules[where raw = ?r2 and L = sample_libs,
      OF disjI2, OF disjI2, OF disjI1, OF h2, THEN conjunct1]
  note c = create_request_code_rules[where raw = ?r3 and cs = "[]" and L = sample_libs,
      OF disjI2, OF disjI2, OF disjI2, OF disjI2, OF disjI2, OF h3, THEN conjunct1]
  from m1 a b c sample_request_valid show ?thesis by (intro conjI) simp_all
qed










lemma update_succeeds:
  assumes "promos d promo_id = Some stored" "p_company_id stored = company_id"
    and "\<not> active_window_violated (merged_model data stored)"
    and "\<not> age_range_violated (merged_model data stored)"
    and "promo_columns_accepted st (merged_model data stored)"
  shows "update_company_promo L st data company_id promo_id d
         = (PromoDTO_of_model L promo_id (merged_model data stored),
            d\<lparr>promos := (promos d)(promo_id \<mapsto> merged_model data stored)\<rparr>)"
  using assms by (simp add: update_company_promo_def Let_def)



























section \<open>The age range after a patch, and the deletion of comments\<close>

lemma update_rejects_age_range:
  assumes "promos d promo_id = Some stored" "p_company_id stored = company_id"
    and "p_age_from (merged_model data stored) = Some a"
    and "p_age_until (merged_model data stored) = Some b"
    and "a \<noteq> 0" "b \<noteq> 0" "a \<ge> b"
  shows "update_company_promo L st data company_id promo_id d
           = (Inl (HTTPException HTTP_404_NOT_FOUND), d)"
  using assms
  by (simp add: update_company_promo_def Let_def age_range_violated_def truthy_int_def)

lemma merged_age_patch:
  "merged_model (sample_age_patch Unset (Given (Some 0))) sample_promo
     = sample_promo\<lparr>p_age_until := Some 0\<rparr>"
  "merged_model (sample_age_patch (Given (Some 0)) (Given (Some 0))) sample_promo
     = sample_promo\<lparr>p_age_from := Some 0, p_age_until := Some 0\<rparr>"
  by (simp_all add: merged_model_def set_target_def set_update_data_def sample_age_patch_def
      sample_promo_def)

lemma sample_age_patch_valid:
  "PromoPatch_validate sample_libs (sample_age_patch Unset (Given (Some 0)))
     = Inr (sample_age_patch Unset (Given (Some 0)))"
  "PromoPatch_validate sample_libs (sample_age_patch (Given (Some 0)) (Given (Some 0)))
     = Inr (sample_age_patch (Given (Some 0)) (Given (Some 0)))"
  by (simp_all add: PromoPatch_validate_def Target_option_validate_def Target_validate_def
      sample_age_patch_def age_field_ok_def categories_field_ok_def image_url_field_ok_def
      check_data_def)

lemma sample_zero_age_dto:
  "\<exists>dto. PromoDTO_of_model sample_libs ''p1'' (sample_promo\<lparr>p_age_until := Some 0\<rparr>) = Inr dto"
  "\<exists>dto. PromoDTO_of_model sample_libs ''p1''
           (sample_promo\<lparr>p_age_from := Some 0, p_age_until := Some 0\<rparr>) = Inr dto"
  by (simp_all add: PromoDTO_of_model_def Target_validate_def convert_country_def sample_promo_def
      sample_libs_def age_field_ok_def categories_field_ok_def len_between_def
      image_url_field_ok_def val_httpurl_def max_count_field_ok_def promo_common_field_ok_def
      promo_unique_field_ok_def)

text \<open>
  Claim C4.  The claim is that \<open>update_company_promo\<close> refuses every merged row whose
  ages are both set with \<open>age_from \<ge> age_until\<close>, the pair with \<open>age_from = 0\<close>
  included, and stores nothing.  The source tests \<open>model.age_from and model.age_until\<close>
  before it compares, so an age of 0 counts as not set.  On the stored sample promo with
  ages 5 and 30, the patch that sets \<open>age_until\<close> to 0 passes the validation of the body
  and is committed with the pair (5, 0), and the patch that sets both ages to 0 is
  committed with the pair (0, 0); both calls return the response object.  (For two ages
  other than 0 the check does refuse: \<open>update_rejects_age_range\<close>.)
\<close>

theorem update_accepts_zero_age_bound:
  "PromoPatch_validate sample_libs (sample_age_patch Unset (Given (Some 0)))
     = Inr (sample_age_patch Unset (Given (Some 0)))
   \<and> p_age_from (sample_promo\<lparr>p_age_until := Some 0\<rparr>) = Some 5
   \<and> (\<exists>dto. update_company_promo sample_libs sample_store
              (sample_age_patch Unset (Given (Some 0))) ''c1'' ''p1'' sample_db
            = (Inr dto, sample_db\<lparr>promos := (promos sample_db)(''p1'' \<mapsto>
                           sample_promo\<lparr>p_age_until := Some 0\<rparr>)\<rparr>))
   \<and> PromoPatch_validate sample_libs (sample_age_patch (Given (Some 0)) (Given (Some 0)))
     = Inr (sample_age_patch (Given (Some 0)) (Given (Some 0)))
   \<and> (\<exists>dto. update_company_promo sample_libs sample_store
              (sample_age_patch (Given (Some 0)) (Given (Some 0))) ''c1'' ''p1'' sample_db
            = (Inr dto, sample_db\<lparr>promos := (promos sample_db)(''p1'' \<mapsto>
                           sample_promo\<lparr>p_age_from := Some 0, p_age_until := Some 0\<rparr>)\<rparr>))"
proof -
  have s: "promos sample_db ''p1'' = Some sample_promo" by (simp add: sample_db_def)
  have o: "p_company_id sample_promo = ''c1''" by (simp add: sample_promo_def)
  have a5: "p_age_from (sample_promo\<lparr>p_age_until := Some 0\<rparr>) = Some 5"
    by (simp add: sample_promo_def)
  let ?m1 = "sample_promo\<lparr>p_age_until := Some 0\<rparr>"
  let ?m2 = "sample_promo\<lparr>p_age_from := Some 0, p_age_until := Some 0\<rparr>"
  have w1: "\<not> active_window_violated ?m1" "\<not> age_range_violated ?m1"
    "promo_columns_accepted sample_store ?m1"
    by (simp_all add: active_window_violated_def age_range_violated_def truthy_int_def
        promo_columns_accepted_def column_widths_ok_def sample_store_def sample_promo_def)
  have w2: "\<not> active_window_violated ?m2" "\<not> age_range_violated ?m2"
    "promo_columns_accepted sample_store ?m2"
    by (simp_all add: active_window_violated_def age_range_violated_def truthy_int_def
        promo_columns_accepted_def column_widths_ok_def sample_store_def sample_promo_def)
  obtain dto1 where d1: "PromoDTO_of_model sample_libs ''p1'' ?m1 = Inr dto1"
    using sample_zero_age_dto(1) by (elim exE)
  obtain dto2 where d2: "PromoDTO_of_model sample_libs ''p1'' ?m2 = Inr dto2"
    using sample_zero_age_dto(2) by (elim exE)
  have u1: "update_company_promo sample_libs sample_store
              (sample_age_patch Unset (Given (Some 0))) ''c1'' ''p1'' sample_db
            = (Inr dto1, sample_db\<lparr>promos := (promos sample_db)(''p1'' \<mapsto> ?m1)\<rparr>)"
    using update_succeeds[OF s o, of "sample_age_patch Unset (Given (Some 0))" sample_store
        sample_libs] w1 d1
    by (simp add: merged_age_patch)
  have u2: "update_company_promo sample_libs sample_store
              (sample_age_patch (Given (Some 0)) (Given (Some 0))) ''c1'' ''p1'' sample_db
            = (Inr dto2, sample_db\<lparr>promos := (promos sample_db)(''p1'' \<mapsto> ?m2)\<rparr>)"
    using update_succeeds[OF s o, of "sample_age_patch (Given (Some 0)) (Given (Some 0))"
        sample_store sample_libs] w2 d2
    by (simp add: merged_age_patch)
  have e1: "\<exists>dto. update_company_promo sample_libs sample_store
              (sample_age_patch Unset (Given (Some 0))) ''c1'' ''p1'' sample_db
            = (Inr dto, sample_db\<lparr>promos := (promos sample_db)(''p1'' \<mapsto> ?m1)\<rparr>)"
    using u1 by (rule exI[where x = dto1])
  have e2: "\<exists>dto. update_company_promo sample_libs sample_store
              (sample_age_patch (Given (Some 0)) (Given (Some 0))) ''c1'' ''p1'' sample_db
            = (Inr dto, sample_db\<lparr>promos := (promos sample_db)(''p1'' \<mapsto> ?m2)\<rparr>)"
    using u2 by (rule exI[where x = dto2])
  show ?thesis
    by (rule conjI[OF sample_age_patch_valid(1) conjI[OF a5 conjI[OF e1
          conjI[OF sample_age_patch_valid(2) e2]]]])
qed

lemma delete_comment_authenticated:
  assumes "AccessTokenUserBearer L r auth_data = Inr credentials"
    and "get_uuid_from_token L credentials = Inr user_id"
    and "user_is_exist_in_db user_id d = Inr True"
  shows "delete_comment L r auth_data ident comment_id d = (Inl AttributeError, d)"
  using assms by (simp add: delete_comment_def UserService_delete_comment_def)

text \<open>
  Claim C8.  The claim is that deleting a comment exists as an operation, raises 404 for a
  pair that resolves to no comment and deletes the comment otherwise.  The route reads the
  attribute \<open>delete_comment\<close> of the service object, which has none: for an authenticated,
  existing user the route raises \<open>AttributeError\<close> and the store keeps the comment, for
  the existing comment \<open>k1\<close> of promo \<open>p1\<close> (which \<open>get_comment_for_promo\<close> finds) as
  for the unknown \<open>k9\<close> (for which \<open>get_comment_for_promo\<close> raises 404).
\<close>

theorem delete_comment_raises_AttributeError:
  "delete_comment sample_libs sample_redis (Some ''u1/j-old'') ''p1'' ''k1'' sample_db
     = (Inl AttributeError, sample_db)
   \<and> comments sample_db ''k1''
     = Some \<lparr>cm_text = ''Great promo, thanks!'', cm_date = 0, cm_author = ''u1'',
             cm_promo_id = ''p1''\<rparr>
   \<and> get_comment_for_promo ''k1'' ''p1'' sample_db
     = Inr \<lparr>cg_id = ''k1'', cg_text = ''Great promo, thanks!'', cg_date = 0,
            cg_author = \<lparr>ca_name = ''Ann'', ca_surname = ''Lee'', ca_avatar_url = None\<rparr>\<rparr>
   \<and> delete_comment sample_libs sample_redis (Some ''u1/j-old'') ''p1'' ''k9'' sample_db
     = (Inl AttributeError, sample_db)
   \<and> get_comment_for_promo ''k9'' ''p1'' sample_db = Inl (HTTPException HTTP_404_NOT_FOUND)"
proof -
  have b: "AccessTokenUserBearer sample_libs sample_redis (Some ''u1/j-old'') = Inr ''u1/j-old''"
    by (simp add: AccessTokenUserBearer_def TokenBearer_call_def sample_libs_def
        sample_decode_def AccessTokenUserBearer_verify_token_data_def
        check_jti_in_whitelist_def whitelist_key_def sismember_def sample_redis_def)
  have t: "get_uuid_from_token sample_libs ''u1/j-old'' = Inr ''u1''"
    by (simp add: get_uuid_from_token_def sample_libs_def sample_decode_def)
  have e: "user_is_exist_in_db ''u1'' sample_db = Inr True"
    by (simp add: user_is_exist_in_db_def sample_db_def)
  have c: "comments sample_db ''k1''
     = Some \<lparr>cm_text = ''Great promo, thanks!'', cm_date = 0, cm_author = ''u1'',
             cm_promo_id = ''p1''\<rparr>"
    by (simp add: sample_db_def)
  have g: "get_comment_for_promo ''k1'' ''p1'' sample_db
     = Inr \<lparr>cg_id = ''k1'', cg_text = ''Great promo, thanks!'', cg_date = 0,
            cg_author = \<lparr>ca_name = ''Ann'', ca_surname = ''Lee'', ca_avatar_url = None\<rparr>\<rparr>"
    by (simp add: get_comment_for_promo_def select_comment_def CommentGet_of_model_def
        len_between_def sample_db_def)
  have g9: "get_comment_for_promo ''k9'' ''p1'' sample_db = Inl (HTTPException HTTP_404_NOT_FOUND)"
    by (simp add: get_comment_for_promo_def select_comment_def sample_db_def)
  show ?thesis
    by (rule conjI[OF delete_comment_authenticated[OF b t e] conjI[OF c conjI[OF g
          conjI[OF delete_comment_authenticated[OF b t e] g9]]]])
qed

end
